theory Spec2Isabelle
  imports Main "HOL-Library.List_Lexorder"
begin

section \<open>JavaScript strings\<close>

text \<open>
  A JavaScript string is a sequence of UTF-16 code units; \<open>s.length\<close> counts code units.
  \<open>Array.from(s)\<close> iterates the string by code points: a high surrogate directly followed
  by a low surrogate is one element (a string of two code units), every other code unit
  is an element of its own. The tokenizer indexes the array of code points and adds
  \<open>token.length\<close> (code units) to that index, so both views are modelled.
  Relational operators on strings compare the code units lexicographically, which is the
  order of \<open>HOL-Library.List_Lexorder\<close> on lists of code units.
\<close>

type_synonym jsstring = "nat list"

abbreviation js :: "string \<Rightarrow> jsstring" where
  "js s \<equiv> map of_char s"

datatype jschar = U nat | P nat nat

abbreviation ch :: "char \<Rightarrow> jschar" where
  "ch c \<equiv> U (of_char c)"

fun units :: "jschar \<Rightarrow> jsstring" where
  "units (U u) = [u]"
| "units (P h l) = [h, l]"

definition join :: "jschar list \<Rightarrow> jsstring" where
  "join cs = concat (map units cs)"

definition isHighSurrogate :: "nat \<Rightarrow> bool" where
  "isHighSurrogate u = (0xD800 \<le> u \<and> u \<le> 0xDBFF)"

definition isLowSurrogate :: "nat \<Rightarrow> bool" where
  "isLowSurrogate u = (0xDC00 \<le> u \<and> u \<le> 0xDFFF)"

fun array_from :: "jsstring \<Rightarrow> jschar list" where
  "array_from [] = []"
| "array_from [u] = [U u]"
| "array_from (u # v # rest) =
     (if isHighSurrogate u \<and> isLowSurrogate v then P u v # array_from rest
      else U u # array_from (v # rest))"

text \<open>\<open>xs[k]\<close> for any integer \<open>k\<close>: \<open>undefined\<close> (here \<open>None\<close>) out of range.\<close>

definition at :: "'a list \<Rightarrow> int \<Rightarrow> 'a option" where
  "at xs k = (if 0 \<le> k \<and> k < int (length xs) then Some (xs ! nat k) else None)"

section \<open>Tokens (tokenizer source)\<close>

text \<open>
  The classes of the tokenizer. Every token holds its literal text \<open>_value\<close>; the two
  \<open>NonCharcterStringLiteral\<close> classes hold \<open>_content\<close> and \<open>_prefix\<close>, and their value is
  \<open>_prefix + _content\<close>. \<open>NewLine\<close> extends \<open>Whitespace\<close>; \<open>Cmmnt\<close> extends \<open>Token\<close>.
\<close>

datatype token =
    Whitespace jsstring
  | NewLine jsstring
  | Word jsstring
  | SingleQuotedString jsstring
  | Num jsstring
  | LParen jsstring
  | RParen jsstring
  | Comma jsstring
  | Cmmnt jsstring
  | Operator jsstring
  | Other jsstring
  | NationalStringLiteral jsstring jsstring
  | HexStringLiteral jsstring jsstring

fun tvalue :: "token \<Rightarrow> jsstring" where
  "tvalue (Whitespace v) = v"
| "tvalue (NewLine v) = v"
| "tvalue (Word v) = v"
| "tvalue (SingleQuotedString v) = v"
| "tvalue (Num v) = v"
| "tvalue (LParen v) = v"
| "tvalue (RParen v) = v"
| "tvalue (Comma v) = v"
| "tvalue (Cmmnt v) = v"
| "tvalue (Operator v) = v"
| "tvalue (Other v) = v"
| "tvalue (NationalStringLiteral content prefix) = prefix @ content"
| "tvalue (HexStringLiteral content prefix) = prefix @ content"

definition tlength :: "token \<Rightarrow> nat" where
  "tlength t = length (tvalue t)"

fun isNewLine :: "token \<Rightarrow> bool" where
  "isNewLine (NewLine v) = True"
| "isNewLine t = False"

fun isWhitespace :: "token \<Rightarrow> bool" where
  "isWhitespace (Whitespace v) = True"
| "isWhitespace (NewLine v) = True"
| "isWhitespace t = False"

abbreviation "SPACE \<equiv> Whitespace (js '' '')"
abbreviation "TAB \<equiv> Whitespace [9]"
abbreviation "LF \<equiv> NewLine [10]"
abbreviation "CRLF \<equiv> NewLine [13, 10]"
abbreviation "CR \<equiv> NewLine [13]"
abbreviation "LPAREN \<equiv> LParen (js ''('')"
abbreviation "RPAREN \<equiv> RParen (js '')'')"
abbreviation "COMMA \<equiv> Comma (js '','')"
abbreviation "CONCAT \<equiv> Operator (js ''||'')"
abbreviation "EQ \<equiv> Operator (js ''='')"
abbreviation "RARROW \<equiv> Operator (js ''=>'')"
abbreviation "PERIOD \<equiv> Operator (js ''.'')"
abbreviation "PLUS \<equiv> Operator (js ''+'')"
abbreviation "MINUS \<equiv> Operator (js ''-'')"
abbreviation "DIV \<equiv> Operator (js ''/'')"
abbreviation "MULT \<equiv> Operator (js ''*'')"
abbreviation "MOD \<equiv> Operator (js ''%'')"
abbreviation "NEQ \<equiv> Operator (js ''!='')"
abbreviation "DOUBLE_EXCLAMATION_MARK \<equiv> Operator (js ''!!'')"
abbreviation "EXCLAMATION_MARK \<equiv> Operator (js ''!'')"
abbreviation "LT \<equiv> Operator (js ''<'')"
abbreviation "LTEQ \<equiv> Operator (js ''<='')"
abbreviation "NEQ2 \<equiv> Operator (js ''<>'')"
abbreviation "SHIFT_LEFT \<equiv> Operator (js ''<<'')"
abbreviation "GT \<equiv> Operator (js ''>'')"
abbreviation "GTEQ \<equiv> Operator (js ''>='')"
abbreviation "SHIFT_RIGHT \<equiv> Operator (js ''>>'')"
abbreviation "COLON \<equiv> Operator (js '':'')"
abbreviation "DOUBLE_COLON \<equiv> Operator (js ''::'')"
abbreviation "SEMICOLON \<equiv> Operator (js '';'')"
abbreviation "BACKSLASH \<equiv> Operator [92]"
abbreviation "LBRACKET \<equiv> Operator (js ''['')"
abbreviation "RBRACKET \<equiv> Operator (js '']'')"
abbreviation "AMPERSAND \<equiv> Operator (js ''&'')"
abbreviation "CARET \<equiv> Operator (js ''^'')"
abbreviation "LBRACE \<equiv> Operator (js ''{'')"
abbreviation "RBRACE \<equiv> Operator (js ''}'')"
abbreviation "TILDE \<equiv> Operator (js ''~'')"
abbreviation "HASH \<equiv> Operator (js ''#'')"
abbreviation "ATSIGN \<equiv> Operator (js ''@'')"

datatype error =
    Error jsstring
  | ParseError jsstring
  | TokenizeError jsstring nat nat jsstring

abbreviation "TOKENIZE_SINGLE_QUOTED_STRING_ERROR \<equiv> js ''Unterminated string literal''"
abbreviation "TOKENIZE_DELIMITED_STRING_ERROR \<equiv>
  js ''Expected close delimiter '' @ [34] @ js '' before EOF.''"
abbreviation "TOKENIZE_MULTI_LINE_COMMENT_ERROR \<equiv>
  js ''Unexpected EOF while in a multi-line comment''"

section \<open>Scanning helpers\<close>

definition isDigit :: "jschar \<Rightarrow> bool" where
  "isDigit c = (js ''0'' \<le> units c \<and> units c \<le> js ''9'')"

definition isDelimiteddIdentifierStart :: "jschar \<Rightarrow> bool" where
  "isDelimiteddIdentifierStart c = (c \<in> set [U 34])"

definition isIdentifierStart :: "jschar \<Rightarrow> bool" where
  "isIdentifierStart c =
     (c \<in> set [ch CHR ''@'', ch CHR ''#'', ch CHR ''_'']
      \<or> (js ''A'' \<le> units c \<and> units c \<le> js ''Z'')
      \<or> (js ''a'' \<le> units c \<and> units c \<le> js ''z''))"

definition isIdentifierPart :: "jschar \<Rightarrow> bool" where
  "isIdentifierPart c =
     (c \<in> set [ch CHR ''@'', ch CHR ''$'', ch CHR ''#'', ch CHR ''_'']
      \<or> (js ''0'' \<le> units c \<and> units c \<le> js ''9'')
      \<or> (js ''A'' \<le> units c \<and> units c \<le> js ''Z'')
      \<or> (js ''a'' \<le> units c \<and> units c \<le> js ''z''))"

text \<open>
  The loop shared by \<open>takeWhile\<close> and \<open>takeWhileOrError\<close>:
  \<open>while (i < chars.length && (by = advanceBy(chars[i], i, chars))) i += by\<close>.
  It stops when the callback returns 0.
\<close>

function takeLoop :: "(jschar \<Rightarrow> nat \<Rightarrow> jschar list \<Rightarrow> nat) \<Rightarrow> jschar list \<Rightarrow> nat \<Rightarrow> nat" where
  "takeLoop advanceBy chars i =
     (if i < length chars \<and> advanceBy (chars ! i) i chars \<noteq> 0
      then takeLoop advanceBy chars (i + advanceBy (chars ! i) i chars)
      else i)"
  by pat_completeness auto
termination
  by (relation "measure (\<lambda>(advanceBy, chars, i). length chars - i)") auto

declare takeLoop.simps [simp del]

definition takeWhile_js :: "jschar list \<Rightarrow> nat \<Rightarrow> (jschar \<Rightarrow> nat \<Rightarrow> jschar list \<Rightarrow> nat) \<Rightarrow> jsstring" where
  "takeWhile_js chars testStart advanceBy =
     (let i = takeLoop advanceBy chars testStart
      in join (take (min i (length chars)) chars))"

definition takeWhileOrError ::
  "jschar list \<Rightarrow> nat \<Rightarrow> (jschar \<Rightarrow> nat \<Rightarrow> jschar list \<Rightarrow> nat) \<Rightarrow> jsstring \<Rightarrow> error + jsstring" where
  "takeWhileOrError chars testStart advanceBy msg =
     (let i = takeLoop advanceBy chars testStart
      in if i = length chars then Inl (Error msg) else Inr (join (take i chars)))"

text \<open>\<open>~~b\<close> of a boolean: 1 for true, 0 for false.\<close>

definition toInt :: "bool \<Rightarrow> nat" where
  "toInt b = (if b then 1 else 0)"

definition tokenizeSingleQuotedStringAdvanceBy :: "jschar \<Rightarrow> nat \<Rightarrow> jschar list \<Rightarrow> nat" where
  "tokenizeSingleQuotedStringAdvanceBy c i chars =
     (if at chars (int i - 1) \<noteq> Some (U 39) then 1
      else if at chars (int i - 1) = Some (U 39) \<and> c = U 39 then 2
      else 0)"

definition tokenizeSingleQuotedString :: "jschar list \<Rightarrow> error + jsstring" where
  "tokenizeSingleQuotedString chars =
     takeWhileOrError chars 2 tokenizeSingleQuotedStringAdvanceBy TOKENIZE_SINGLE_QUOTED_STRING_ERROR"

definition tokenizeIdentifier :: "jschar list \<Rightarrow> jsstring" where
  "tokenizeIdentifier chars = takeWhile_js chars 1 (\<lambda>c i chars. toInt (isIdentifierPart c))"

section \<open>The rule table and \<open>tokenize\<close>\<close>

text \<open>
  The object literal \<open>rule\<close>, keyed by the dispatch key. A rule receives
  \<open>chars.slice(i)\<close> with \<open>i < chars.length\<close>, so \<open>chars[0]\<close> is the current character.
  A rule that calls \<open>takeWhileOrError\<close> may throw (\<open>Inl\<close>).
\<close>

definition quoted :: "(jsstring \<Rightarrow> jsstring \<Rightarrow> token) \<Rightarrow> jschar list \<Rightarrow> error + token" where
  "quoted mk chars =
     (case tokenizeSingleQuotedString (drop 1 chars) of
        Inl e \<Rightarrow> Inl e
      | Inr content \<Rightarrow> Inr (mk content (units (chars ! 0))))"

definition rule_table :: "(jsstring \<times> (jschar list \<Rightarrow> error + token)) list" where
  "rule_table =
    [(js '' '', \<lambda>chars. Inr SPACE),
     ([9], \<lambda>chars. Inr TAB),
     ([10], \<lambda>chars. Inr LF),
     ([13], \<lambda>chars. Inr (if at chars 1 = Some (U 10) then CRLF else CR)),
     (js ''N'', \<lambda>chars. if at chars 1 = Some (U 39) then quoted NationalStringLiteral chars
                         else Inr (Word (tokenizeIdentifier chars))),
     (js ''X'', \<lambda>chars. if at chars 1 = Some (U 39) then quoted HexStringLiteral chars
                         else Inr (Word (tokenizeIdentifier chars))),
     (js ''x'', \<lambda>chars. if at chars 1 = Some (U 39) then quoted HexStringLiteral chars
                         else Inr (Word (tokenizeIdentifier chars))),
     (js ''ident'', \<lambda>chars. Inr (Word (tokenizeIdentifier chars))),
     ([39], \<lambda>chars. map_sum id SingleQuotedString (tokenizeSingleQuotedString chars)),
     (js ''delimitedIdent'', \<lambda>chars. map_sum id Word
        (takeWhileOrError chars 2
           (\<lambda>c i chars. toInt (\<not> (case at chars (int i - 1) of
                                        Some d \<Rightarrow> isDelimiteddIdentifierStart d
                                      | None \<Rightarrow> False)))
           TOKENIZE_DELIMITED_STRING_ERROR)),
     (js ''num'', \<lambda>chars. Inr (Num (takeWhile_js chars 1
        (\<lambda>c i chars. toInt (isDigit c \<or> c = ch CHR ''.''))))),
     (js ''('', \<lambda>chars. Inr LPAREN),
     (js '')'', \<lambda>chars. Inr RPAREN),
     (js '','', \<lambda>chars. Inr COMMA),
     (js ''-'', \<lambda>chars. Inr (if at chars 1 = Some (ch CHR ''-'')
        then Cmmnt (takeWhile_js chars 2 (\<lambda>c i chars. toInt (c \<noteq> U 10)))
        else MINUS)),
     (js ''/'', \<lambda>chars. if at chars 1 = Some (ch CHR ''*'')
        then map_sum id Cmmnt
          (takeWhileOrError chars 4
             (\<lambda>c i chars. toInt (\<not> (at chars (int i - 2) = Some (ch CHR ''*'')
                                       \<and> at chars (int i - 1) = Some (ch CHR ''/''))))
             TOKENIZE_MULTI_LINE_COMMENT_ERROR)
        else Inr DIV),
     (js ''+'', \<lambda>chars. Inr PLUS),
     (js ''*'', \<lambda>chars. Inr MULT),
     (js ''%'', \<lambda>chars. Inr MOD),
     (js ''|'', \<lambda>chars. Inr (if at chars 1 = Some (ch CHR ''|'') then CONCAT else Other (js ''|''))),
     (js ''='', \<lambda>chars. Inr (if at chars 1 = Some (ch CHR ''>'') then RARROW else EQ)),
     (js ''.'', \<lambda>chars. Inr PERIOD),
     (js ''!'', \<lambda>chars. Inr (if at chars 1 = Some (ch CHR ''='') then NEQ
                              else if at chars 1 = Some (ch CHR ''!'') then DOUBLE_EXCLAMATION_MARK
                              else EXCLAMATION_MARK)),
     (js ''<'', \<lambda>chars. Inr (if at chars 1 = Some (ch CHR ''='') then LTEQ
                              else if at chars 1 = Some (ch CHR ''>'') then NEQ2
                              else if at chars 1 = Some (ch CHR ''<'') then SHIFT_LEFT
                              else LT)),
     (js ''>'', \<lambda>chars. Inr (if at chars 1 = Some (ch CHR ''='') then GTEQ
                              else if at chars 1 = Some (ch CHR ''>'') then SHIFT_RIGHT
                              else GT)),
     (js '':'', \<lambda>chars. Inr (if at chars 1 = Some (ch CHR '':'') then DOUBLE_COLON else COLON)),
     (js '';'', \<lambda>chars. Inr SEMICOLON),
     ([92], \<lambda>chars. Inr BACKSLASH),
     (js ''['', \<lambda>chars. Inr LBRACKET),
     (js '']'', \<lambda>chars. Inr RBRACKET),
     (js ''&'', \<lambda>chars. Inr AMPERSAND),
     (js ''^'', \<lambda>chars. Inr CARET),
     (js ''{'', \<lambda>chars. Inr LBRACE),
     (js ''}'', \<lambda>chars. Inr RBRACE),
     (js ''~'', \<lambda>chars. Inr TILDE),
     (js ''#'', \<lambda>chars. Inr HASH),
     (js ''@'', \<lambda>chars. Inr ATSIGN)]"

text \<open>The dispatch key of \<open>tokenize\<close> for the current character \<open>c\<close>.\<close>

definition keyOf :: "jschar \<Rightarrow> jsstring" where
  "keyOf c =
     (if c \<in> set [ch CHR ''N'', ch CHR ''X'', ch CHR ''x''] then units c
      else if isIdentifierStart c then js ''ident''
      else if isDelimiteddIdentifierStart c then js ''delimitedIdent''
      else if isDigit c then js ''num''
      else units c)"

text \<open>\<open>rule[key]?.(chars) || new Other(key)\<close>: a token object is always truthy.\<close>

definition applyRule :: "jsstring \<Rightarrow> jschar list \<Rightarrow> error + token" where
  "applyRule key chars =
     (case map_of rule_table key of
        Some r \<Rightarrow> r chars
      | None \<Rightarrow> Inr (Other key))"

fun message :: "error \<Rightarrow> jsstring" where
  "message (Error m) = m"
| "message (ParseError m) = m"
| "message (TokenizeError m row col cause) = m"

text \<open>
  The loop of \<open>tokenize\<close>, with its variables \<open>i\<close>, \<open>row\<close>, \<open>col\<close> and \<open>tokens\<close>.
  \<open>wrapError\<close> is imported from a file that is not part of the sources; the thrown
  \<open>TokenizeError\<close> is modelled with the message of the error it wraps as fourth field.
\<close>

function tokenize_loop :: "jschar list \<Rightarrow> nat \<Rightarrow> nat \<Rightarrow> nat \<Rightarrow> token list \<Rightarrow> error + token list" where
  "tokenize_loop chars i row col tokens =
     (if i < length chars then
        (case applyRule (keyOf (chars ! i)) (drop i chars) of
           Inl err \<Rightarrow> Inl (TokenizeError (js ''Tokenize error'') row col (message err))
         | Inr token \<Rightarrow>
             if isNewLine token
             then tokenize_loop chars (i + tlength token) (row + 1) 1 (tokens @ [token])
             else tokenize_loop chars (i + tlength token) row (col + tlength token) (tokens @ [token]))
      else Inr tokens)"
  by pat_completeness auto

text \<open>
  Every token has at least one code unit, so the index \<open>i\<close> of the loop grows and the
  loop ends.
\<close>

lemma takeLoop_ge: "i \<le> takeLoop adv cs i"
proof (induction adv cs i rule: takeLoop.induct)
  case (1 adv cs i)
  show ?case
  proof (cases "i < length cs \<and> adv (cs ! i) i cs \<noteq> 0")
    case True
    with 1 have "i + adv (cs ! i) i cs \<le> takeLoop adv cs (i + adv (cs ! i) i cs)" by simp
    with True show ?thesis by (subst takeLoop.simps) auto
  next
    case False
    then show ?thesis by (subst takeLoop.simps) auto
  qed
qed

lemma units_nonempty: "units c \<noteq> []"
  by (cases c) simp_all

lemma join_take_nonempty: "cs \<noteq> [] \<Longrightarrow> 0 < k \<Longrightarrow> join (take k cs) \<noteq> []"
  by (cases cs; cases k) (simp_all add: join_def units_nonempty)

lemma takeWhile_js_nonempty: "cs \<noteq> [] \<Longrightarrow> 0 < s \<Longrightarrow> takeWhile_js cs s adv \<noteq> []"
  using takeLoop_ge [of s adv cs]
  by (simp add: takeWhile_js_def Let_def join_take_nonempty)

lemma takeWhileOrError_nonempty:
  "cs \<noteq> [] \<Longrightarrow> 0 < s \<Longrightarrow> takeWhileOrError cs s adv msg = Inr v \<Longrightarrow> v \<noteq> []"
  using takeLoop_ge [of s adv cs]
  by (auto simp: takeWhileOrError_def Let_def join_take_nonempty split: if_splits)

lemma keyOf_nonempty: "keyOf c \<noteq> []"
  by (simp add: keyOf_def units_nonempty)

lemma takeWhile_js_len [simp]: "0 < s \<Longrightarrow> takeWhile_js (c # rest) s adv \<noteq> []"
  by (rule takeWhile_js_nonempty) simp_all

lemma takeWhileOrError_len:
  "takeWhileOrError (c # rest) s adv msg = Inr v \<Longrightarrow> 0 < s \<Longrightarrow> v \<noteq> []"
  using takeWhileOrError_nonempty [of "c # rest" s adv msg v] by simp

lemma quoted_len2: "quoted NationalStringLiteral (c # rest) = Inr t \<Longrightarrow> tvalue t \<noteq> []"
  "quoted HexStringLiteral (c # rest) = Inr t \<Longrightarrow> tvalue t \<noteq> []"
  by (auto simp: quoted_def units_nonempty split: sum.splits)

lemma rule_table_nonempty:
  assumes "(k, r) \<in> set rule_table" and "r (c # rest) = Inr t"
  shows "tvalue t \<noteq> []"
  using assms
  apply (simp only: rule_table_def list.set insert_iff empty_iff prod.inject)
  apply (elim disjE conjE)
  apply (auto simp: tokenizeIdentifier_def tokenizeSingleQuotedString_def map_sum_def
       split: if_splits sum.splits dest: takeWhileOrError_len quoted_len2)
  done

lemma applyRule_key_nonempty:
  assumes "applyRule key (c # rest) = Inr t" and "key \<noteq> []"
  shows "tvalue t \<noteq> []"
  using assms rule_table_nonempty [of key _ c rest t]
  by (auto simp: applyRule_def split: option.splits dest!: map_of_SomeD)

lemma applyRule_nonempty:
  assumes "i < length chars" and "applyRule (keyOf (chars ! i)) (drop i chars) = Inr t"
  shows "0 < tlength t"
  using assms applyRule_key_nonempty [of "keyOf (chars ! i)" "chars ! i" "drop (Suc i) chars" t]
  by (simp add: Cons_nth_drop_Suc keyOf_nonempty tlength_def)

termination tokenize_loop
proof (relation "measure (\<lambda>(chars, i, row, col, tokens). length chars - i)")
  fix chars :: "jschar list" and i :: nat and row col :: nat and tokens token
  assume "i < length chars" and "applyRule (keyOf (chars ! i)) (drop i chars) = Inr token"
  then have "0 < tlength token" and "i < length chars"
    by (auto dest: applyRule_nonempty)
  then have less: "length chars - (i + tlength token) < length chars - i"
    by arith
  show "((chars, i + tlength token, row + 1, 1, tokens @ [token]), chars, i, row, col, tokens)
        \<in> measure (\<lambda>(chars, i, row, col, tokens). length chars - i)"
    using less by simp
  show "((chars, i + tlength token, row, col + tlength token, tokens @ [token]),
         chars, i, row, col, tokens)
        \<in> measure (\<lambda>(chars, i, row, col, tokens). length chars - i)"
    using less by simp
qed simp

declare tokenize_loop.simps [simp del]

definition tokenize :: "jsstring \<Rightarrow> error + token list" where
  "tokenize src = tokenize_loop (array_from src) 0 1 1 []"

section \<open>Evaluation rules for the tokenizer\<close>

text \<open>
  Equations for running the tokenizer on a concrete input with the simplifier: the loops
  unfold only where their condition is decided, and the rule table is looked up by
  comparing the key with each of its keys in turn, in code units.
\<close>

lemma takeLoop_stop:
  "\<not> (i < length chars \<and> advanceBy (chars ! i) i chars \<noteq> 0) \<Longrightarrow> takeLoop advanceBy chars i = i"
  by (subst takeLoop.simps) auto

lemma takeLoop_step:
  "i < length chars \<Longrightarrow> advanceBy (chars ! i) i chars \<noteq> 0 \<Longrightarrow>
   takeLoop advanceBy chars i = takeLoop advanceBy chars (i + advanceBy (chars ! i) i chars)"
  by (subst takeLoop.simps) auto

lemma tokenize_loop_stop:
  "\<not> i < length chars \<Longrightarrow> tokenize_loop chars i row col tokens = Inr tokens"
  by (subst tokenize_loop.simps) auto

lemma tokenize_loop_step:
  "i < length chars \<Longrightarrow> tokenize_loop chars i row col tokens =
     (case applyRule (keyOf (chars ! i)) (drop i chars) of
        Inl err \<Rightarrow> Inl (TokenizeError (js ''Tokenize error'') row col (message err))
      | Inr token \<Rightarrow>
          if isNewLine token
          then tokenize_loop chars (i + tlength token) (row + 1) 1 (tokens @ [token])
          else tokenize_loop chars (i + tlength token) row (col + tlength token) (tokens @ [token]))"
  by (subst tokenize_loop.simps) auto

lemma char_class_U:
  "isDigit (U u) = (48 \<le> u \<and> u \<le> 57)"
  "isDelimiteddIdentifierStart (U u) = (u = 34)"
  "isIdentifierStart (U u) =
     (u = 64 \<or> u = 35 \<or> u = 95 \<or> (65 \<le> u \<and> u \<le> 90) \<or> (97 \<le> u \<and> u \<le> 122))"
  "isIdentifierPart (U u) =
     (u = 64 \<or> u = 36 \<or> u = 35 \<or> u = 95 \<or> (48 \<le> u \<and> u \<le> 57)
      \<or> (65 \<le> u \<and> u \<le> 90) \<or> (97 \<le> u \<and> u \<le> 122))"
  by (auto simp: isDigit_def isDelimiteddIdentifierStart_def isIdentifierStart_def
      isIdentifierPart_def)

lemma keyOf_U:
  "keyOf (U u) =
     (if u = 78 \<or> u = 88 \<or> u = 120 then [u]
      else if isIdentifierStart (U u) then [105, 100, 101, 110, 116]
      else if u = 34 then [100, 101, 108, 105, 109, 105, 116, 101, 100, 73, 100, 101, 110, 116]
      else if isDigit (U u) then [110, 117, 109]
      else [u])"
  by (auto simp: keyOf_def char_class_U)

lemma keyOf_P: "isHighSurrogate h \<Longrightarrow> keyOf (P h l) = [h, l]"
  by (auto simp: keyOf_def isDigit_def isDelimiteddIdentifierStart_def isIdentifierStart_def
      isHighSurrogate_def)

lemma applyRule_eval:
  "applyRule key chars =
     (if key = [32] then Inr SPACE
      else if key = [9] then Inr TAB
      else if key = [10] then Inr LF
      else if key = [13] then Inr (if at chars 1 = Some (U 10) then CRLF else CR)
      else if key = [78] then
        (if at chars 1 = Some (U 39) then quoted NationalStringLiteral chars
         else Inr (Word (tokenizeIdentifier chars)))
      else if key = [88] \<or> key = [120] then
        (if at chars 1 = Some (U 39) then quoted HexStringLiteral chars
         else Inr (Word (tokenizeIdentifier chars)))
      else if key = [105, 100, 101, 110, 116] then Inr (Word (tokenizeIdentifier chars))
      else if key = [39] then map_sum id SingleQuotedString (tokenizeSingleQuotedString chars)
      else if key = [100, 101, 108, 105, 109, 105, 116, 101, 100, 73, 100, 101, 110, 116] then
        map_sum id Word
          (takeWhileOrError chars 2
             (\<lambda>c i chars. toInt (\<not> (case at chars (int i - 1) of
                                          Some d \<Rightarrow> isDelimiteddIdentifierStart d
                                        | None \<Rightarrow> False)))
             TOKENIZE_DELIMITED_STRING_ERROR)
      else if key = [110, 117, 109] then
        Inr (Num (takeWhile_js chars 1 (\<lambda>c i chars. toInt (isDigit c \<or> c = U 46))))
      else if key = [40] then Inr LPAREN
      else if key = [41] then Inr RPAREN
      else if key = [44] then Inr COMMA
      else if key = [45] then
        Inr (if at chars 1 = Some (U 45)
             then Cmmnt (takeWhile_js chars 2 (\<lambda>c i chars. toInt (c \<noteq> U 10)))
             else MINUS)
      else if key = [47] then
        (if at chars 1 = Some (U 42)
         then map_sum id Cmmnt
           (takeWhileOrError chars 4
              (\<lambda>c i chars. toInt (\<not> (at chars (int i - 2) = Some (U 42)
                                        \<and> at chars (int i - 1) = Some (U 47))))
              TOKENIZE_MULTI_LINE_COMMENT_ERROR)
         else Inr DIV)
      else if key = [43] then Inr PLUS
      else if key = [42] then Inr MULT
      else if key = [37] then Inr MOD
      else if key = [124] then Inr (if at chars 1 = Some (U 124) then CONCAT else Other [124])
      else if key = [61] then Inr (if at chars 1 = Some (U 62) then RARROW else EQ)
      else if key = [46] then Inr PERIOD
      else if key = [33] then
        Inr (if at chars 1 = Some (U 61) then NEQ
             else if at chars 1 = Some (U 33) then DOUBLE_EXCLAMATION_MARK
             else EXCLAMATION_MARK)
      else if key = [60] then
        Inr (if at chars 1 = Some (U 61) then LTEQ
             else if at chars 1 = Some (U 62) then NEQ2
             else if at chars 1 = Some (U 60) then SHIFT_LEFT
             else LT)
      else if key = [62] then
        Inr (if at chars 1 = Some (U 61) then GTEQ
             else if at chars 1 = Some (U 62) then SHIFT_RIGHT
             else GT)
      else if key = [58] then Inr (if at chars 1 = Some (U 58) then DOUBLE_COLON else COLON)
      else if key = [59] then Inr SEMICOLON
      else if key = [92] then Inr BACKSLASH
      else if key = [91] then Inr LBRACKET
      else if key = [93] then Inr RBRACKET
      else if key = [38] then Inr AMPERSAND
      else if key = [94] then Inr CARET
      else if key = [123] then Inr LBRACE
      else if key = [125] then Inr RBRACE
      else if key = [126] then Inr TILDE
      else if key = [35] then Inr HASH
      else if key = [64] then Inr ATSIGN
      else Inr (Other key))"
  by (simp add: applyRule_def rule_table_def)

lemmas tokenize_eval =
  tokenize_def tokenize_loop_stop tokenize_loop_step keyOf_U keyOf_P char_class_U applyRule_eval
  takeWhile_js_def takeWhileOrError_def takeLoop_stop takeLoop_step Let_def
  tokenizeIdentifier_def toInt_def at_def join_def tlength_def quoted_def
  tokenizeSingleQuotedString_def tokenizeSingleQuotedStringAdvanceBy_def
  isHighSurrogate_def isLowSurrogate_def

section \<open>Parser: cursor, results and token helpers\<close>

text \<open>
  The cursor is a JavaScript number: an index into the token array, or \<open>Infinity\<close>, which
  \<open>nextMeaningfulToken\<close> returns at the end of the input. \<open>NextTokenResult\<close> is a token
  or the \<open>EOF\<close> object, whose \<open>value\<close> is the string \<open>EOF\<close>.
\<close>

datatype index = Idx nat | Infinity

datatype nextTokenResult = Tok token | EOF

fun nvalue :: "nextTokenResult \<Rightarrow> jsstring" where
  "nvalue (Tok t) = tvalue t"
| "nvalue EOF = js ''EOF''"

text \<open>\<open>tokenSet.length <= idx\<close>; its negation is \<open>idx < tokenSet.length\<close>.\<close>

fun lengthLe :: "token list \<Rightarrow> index \<Rightarrow> bool" where
  "lengthLe ts (Idx i) = (length ts \<le> i)"
| "lengthLe ts Infinity = True"

text \<open>
  A parsing function returns a value, throws, or (in this model) runs out of fuel:
  the loops and the recursion that the source does not bound take a fuel argument, and
  \<open>Timeout\<close> is the outcome of a run that needs more steps than the fuel given.
\<close>

datatype 'a result = Return 'a | Throw error | Timeout

fun bind :: "'a result \<Rightarrow> ('a \<Rightarrow> 'b result) \<Rightarrow> 'b result" where
  "bind (Return x) f = f x"
| "bind (Throw e) f = Throw e"
| "bind Timeout f = Timeout"

lemma bind_cong_weak: "m = m' \<Longrightarrow> bind m f = bind m' f"
  by simp

definition getError :: "jsstring \<Rightarrow> nextTokenResult \<Rightarrow> error" where
  "getError expected actual =
     ParseError (js ''Expected: '' @ expected @ js '', found: '' @ nvalue actual)"

definition unsupportedExprssion :: "nextTokenResult \<Rightarrow> error" where
  "unsupportedExprssion token = ParseError (js ''An unsupported expression found: '' @ nvalue token)"

text \<open>The loop \<open>while (i < tokenSet.length && tokenSet[i] instanceof tk.Whitespace) i++\<close>.\<close>

function skipWhitespace :: "token list \<Rightarrow> nat \<Rightarrow> nat" where
  "skipWhitespace ts i =
     (if i < length ts \<and> isWhitespace (ts ! i) then skipWhitespace ts (i + 1) else i)"
  by pat_completeness auto
termination
  by (relation "measure (\<lambda>(ts, i). length ts - i)") auto

declare skipWhitespace.simps [simp del]

definition nextMeaningfulToken :: "token list \<Rightarrow> index \<Rightarrow> index \<times> nextTokenResult" where
  "nextMeaningfulToken ts start =
     (case start of
        Infinity \<Rightarrow> (Infinity, EOF)
      | Idx s \<Rightarrow>
          (let i = skipWhitespace ts s
           in if length ts \<le> i then (Infinity, EOF) else (Idx (i + 1), Tok (ts ! i))))"

definition peekToken :: "token list \<Rightarrow> index \<Rightarrow> nextTokenResult" where
  "peekToken ts start =
     (case start of
        Infinity \<Rightarrow> EOF
      | Idx s \<Rightarrow>
          (let i = skipWhitespace ts s
           in if length ts \<le> i then EOF else Tok (ts ! i)))"

fun equalToKeyword :: "nextTokenResult \<Rightarrow> jsstring \<Rightarrow> bool" where
  "equalToKeyword (Tok (Word v)) keyword = (v = keyword)"
| "equalToKeyword token keyword = False"

definition inKeywords :: "nextTokenResult \<Rightarrow> jsstring list \<Rightarrow> bool" where
  "inKeywords token keywords = list_ex (equalToKeyword token) keywords"

definition consumeToken :: "token list \<Rightarrow> index \<Rightarrow> token \<Rightarrow> index option" where
  "consumeToken ts start consumedToken =
     (case nextMeaningfulToken ts start of
        (idx, Tok token) \<Rightarrow> if tvalue token = tvalue consumedToken then Some idx else None
      | (idx, EOF) \<Rightarrow> None)"

definition expectToken :: "token list \<Rightarrow> index \<Rightarrow> token \<Rightarrow> index result" where
  "expectToken ts start expected =
     (case nextMeaningfulToken ts start of
        (idx, Tok token) \<Rightarrow>
          if tvalue token = tvalue expected then Return idx
          else Throw (getError (tvalue expected) (Tok token))
      | (idx, EOF) \<Rightarrow> Throw (getError (tvalue expected) EOF))"

definition parseKeyword :: "token list \<Rightarrow> index \<Rightarrow> jsstring \<Rightarrow> index \<times> bool" where
  "parseKeyword ts start keyword =
     (if equalToKeyword (peekToken ts start) keyword
      then (fst (nextMeaningfulToken ts start), True)
      else (start, False))"

text \<open>
  \<open>parseKeywords\<close>: the loop \<open>for (j = 0; idx < tokenSet.length && j < keywords.length; j++)\<close>
  over the keywords still to check; it returns \<open>[idx, true]\<close> when its condition fails.
\<close>

fun parseKeywords_loop :: "token list \<Rightarrow> index \<Rightarrow> index \<Rightarrow> jsstring list \<Rightarrow> index \<times> bool" where
  "parseKeywords_loop ts start idx [] = (idx, True)"
| "parseKeywords_loop ts start idx (keyword # keywords) =
     (if lengthLe ts idx then (idx, True)
      else (case parseKeyword ts idx keyword of
              (idx', found) \<Rightarrow>
                if \<not> found then (start, False)
                else parseKeywords_loop ts start idx' keywords))"

definition parseKeywords :: "token list \<Rightarrow> index \<Rightarrow> jsstring list \<Rightarrow> index \<times> bool" where
  "parseKeywords ts start keywords = parseKeywords_loop ts start start keywords"

definition expectKeyword :: "token list \<Rightarrow> index \<Rightarrow> jsstring \<Rightarrow> index result" where
  "expectKeyword ts start keyword =
     (if equalToKeyword (peekToken ts start) keyword
      then Return (fst (nextMeaningfulToken ts start))
      else Throw (getError keyword (peekToken ts start)))"

fun expectKeywords :: "token list \<Rightarrow> index \<Rightarrow> jsstring list \<Rightarrow> index result" where
  "expectKeywords ts idx [] = Return idx"
| "expectKeywords ts idx (keyword # keywords) =
     bind (expectKeyword ts idx keyword) (\<lambda>idx'. expectKeywords ts idx' keywords)"

section \<open>Abstract syntax\<close>

text \<open>
  The classes of the parser source. The expression, value, operator, column-option and
  data-type classes are imported from files that are not part of the sources: their
  constructors are taken as free constructors over the arguments the parser passes.
  \<open>number\<close> is the result of \<open>parseInt\<close>: a non-negative integer that is a double,
  \<open>Infinity\<close> or \<open>NaN\<close>.
\<close>

datatype Ident = Ident jsstring "jsstring option"

datatype ObjectName = ObjectName "Ident list"

datatype number = Finite nat | Infinite | NaN

datatype DataType =
    DataTypeL jsstring number
  | DataTypeOptPS jsstring "(number \<times> number) option"
  | DataTypeOptP jsstring "number option"
  | DataTypeNoArgs jsstring

datatype UnaryOperator = UnaryOperator jsstring

datatype BinaryOperator = BinaryOperator jsstring

datatype Value =
    VBoolean jsstring
  | VNull
  | VNumber jsstring
  | VSingleQuotedString "jsstring option"
  | VNationalStringLiteral jsstring jsstring
  | VHexStringLiteral jsstring jsstring

datatype Expr =
    Identifier Ident
  | QualifiedWildcard "Ident list"
  | Wildcard
  | Value Value
  | TypedString DataType "jsstring option"
  | UnaryOp UnaryOperator Expr
  | BinaryOp Expr BinaryOperator Expr
  | IsNull Expr
  | IsNotNull Expr
  | Between Expr bool Expr Expr
  | InList Expr "Expr list" bool
  | Case "Expr option" "Expr list" "Expr list" "Expr option"
  | Cast Expr DataType
  | Collate Expr ObjectName
  | Exists
  | Extract
  | ListAgg
  | Function
  | Subquery

datatype ReferencialAction = ReferencialAction jsstring

datatype ColumnOption =
    OptNotNull
  | OptNull
  | OptDefault Expr
  | OptUnique bool
  | OptForeign ObjectName "Ident list" "ReferencialAction option" "ReferencialAction option"
  | OptCheck Expr
  | OptDiarectSpecific jsstring

datatype ColumnOptionDef = ColumnOptionDef "Ident option" ColumnOption

datatype ColumnDef = ColumnDef Ident DataType "ObjectName option" "ColumnOptionDef list"

datatype TableConstraint =
    Unique "Ident option" "Ident list" bool
  | ForeignKey "Ident option" "Ident list" ObjectName "Ident list"
  | Check "Ident option" Expr

datatype SqlOption = SqlOption

record CreateTableStatement =
  name :: ObjectName
  columns :: "ColumnDef list"
  constraints :: "TableConstraint list"
  withOptions :: "SqlOption list"
  orReplace :: bool
  ifNotExists :: bool
  withoutRowid :: bool
  external :: bool
  fileFormat :: "unit option"
  location :: "jsstring option"
  query :: "unit option"

section \<open>Collaborators that are not part of the sources\<close>

text \<open>
  Modelled from the spec: the keyword table (\<open>keywords.isKeyword\<close>,
  \<open>keywords.isOneOfKeywords\<close>) and the data-type catalog (\<open>types.inDataTypeNameL\<close>,
  \<open>inDataTypeNameOptPS\<close>, \<open>inDataTypeNameOptP\<close>, \<open>inDataTypeNameNoArgs\<close>) are imported by the
  parser from files that are not part of the sources. The spec gives their interface only
  (a predicate "is this word exactly this keyword", and a classification of a type name
  into one of four argument shapes), so the parser takes them as a parameter \<open>env\<close>.
\<close>

record env =
  isKeyword :: "jsstring \<Rightarrow> jsstring \<Rightarrow> bool"
  inDataTypeNameL :: "jsstring \<Rightarrow> bool"
  inDataTypeNameOptPS :: "jsstring \<Rightarrow> bool"
  inDataTypeNameOptP :: "jsstring \<Rightarrow> bool"
  inDataTypeNameNoArgs :: "jsstring \<Rightarrow> bool"

definition isOneOfKeywords :: "env \<Rightarrow> jsstring \<Rightarrow> jsstring list \<Rightarrow> bool" where
  "isOneOfKeywords env word keywords = list_ex (isKeyword env word) keywords"

text \<open>
  Modelled from the spec: the parser tests \<open>instanceof tk.WordIdent\<close>, \<open>tk.Number\<close>,
  \<open>tk.StringLiteral\<close> and \<open>tk.DelimitedIdent\<close> and compares with \<open>tk.PIPE\<close>, none of which the
  tokenizer source declares. By the spec a word token is a bare identifier or keyword or a
  quoted identifier, so \<open>WordIdent\<close> is the tokenizer's \<open>Word\<close> (which it also builds for a
  delimited identifier, so no token is a \<open>DelimitedIdent\<close>); \<open>Number\<close> is its \<open>Num\<close>;
  \<open>StringLiteral\<close> is one of its three string classes; \<open>PIPE\<close> is the operator \<open>|\<close>, which
  the tokenizer never builds (it builds \<open>Other\<close> for a single \<open>|\<close>).
  A comparison \<open>token === tk.LPAREN\<close> is by identity: the tokenizer builds every
  punctuation and operator token as the shared constant, so on its output identity is
  equality of class and text.
\<close>

fun isWord :: "nextTokenResult \<Rightarrow> bool" where
  "isWord (Tok (Word v)) = True"
| "isWord token = False"

abbreviation isWordIdent :: "nextTokenResult \<Rightarrow> bool" where
  "isWordIdent token \<equiv> isWord token"

fun isNumber :: "nextTokenResult \<Rightarrow> bool" where
  "isNumber (Tok (Num v)) = True"
| "isNumber token = False"

fun isStringLiteral :: "nextTokenResult \<Rightarrow> bool" where
  "isStringLiteral (Tok (SingleQuotedString v)) = True"
| "isStringLiteral (Tok (NationalStringLiteral content prefix)) = True"
| "isStringLiteral (Tok (HexStringLiteral content prefix)) = True"
| "isStringLiteral token = False"

fun isOperator :: "nextTokenResult \<Rightarrow> bool" where
  "isOperator (Tok (Operator v)) = True"
| "isOperator token = False"

abbreviation "PIPE \<equiv> Operator (js ''|'')"

text \<open>\<open>toIdent\<close>: no token is a \<open>DelimitedIdent\<close>, so the identifier is the token's text.\<close>

definition toIdent :: "nextTokenResult \<Rightarrow> Ident" where
  "toIdent wordOrIdent = Ident (nvalue wordOrIdent) None"

text \<open>
  The built-in \<open>parseInt\<close> of JavaScript on the text of a number token (digits and
  periods): \<open>NaN\<close> when the text has no leading digit, else the Number value of the
  integer that the leading digits write. A Number is a double: \<open>roundToDouble\<close> gives the
  nearest integer with 53 significant bits, the even one of two that are as near, and
  \<open>Infinity\<close> when that is \<open>2 ^ 1024\<close> or more. Below \<open>2 ^ 53\<close> the value is exact.
\<close>

fun bitLength :: "nat \<Rightarrow> nat" where
  "bitLength m = (if m = 0 then 0 else Suc (bitLength (m div 2)))"

declare bitLength.simps [simp del]

definition roundToDouble :: "nat \<Rightarrow> number" where
  "roundToDouble m =
     (if m < 2 ^ 53 then Finite m
      else
        (let e = bitLength m - 53;
             q = m div 2 ^ e;
             r = m mod 2 ^ e;
             q' = (if 2 ^ (e - 1) < r \<or> (r = 2 ^ (e - 1) \<and> odd q) then q + 1 else q)
         in if 2 ^ 1024 \<le> q' * 2 ^ e then Infinite else Finite (q' * 2 ^ e)))"

definition parseInt :: "jsstring \<Rightarrow> number" where
  "parseInt s =
     (let ds = takeWhile (\<lambda>u. 48 \<le> u \<and> u \<le> 57) s
      in if ds = [] then NaN
         else roundToDouble (foldl (\<lambda>a u. 10 * a + (u - 48)) 0 ds))"

section \<open>Parser: functions without unbounded recursion\<close>

definition parseIdentifier :: "token list \<Rightarrow> index \<Rightarrow> (index \<times> Ident) result" where
  "parseIdentifier ts start =
     (case nextMeaningfulToken ts start of
        (idx, token) \<Rightarrow>
          if isWordIdent token then Return (idx, toIdent token)
          else Throw (getError (js ''identifier'') token))"

definition parseLiteralUint :: "token list \<Rightarrow> index \<Rightarrow> (index \<times> number) result" where
  "parseLiteralUint ts start =
     (case nextMeaningfulToken ts start of
        (idx, token) \<Rightarrow>
          if isNumber token then Return (idx, parseInt (nvalue token))
          else Throw (getError (js ''literal int'') token))"

definition parseLength :: "token list \<Rightarrow> index \<Rightarrow> (index \<times> number) result" where
  "parseLength ts start =
     bind (expectToken ts start LPAREN) (\<lambda>idx.
     bind (parseLiteralUint ts idx) (\<lambda>(idx, len).
     bind (expectToken ts idx RPAREN) (\<lambda>idx'. Return (idx', len))))"

definition parseOptionalPrecisionScale ::
  "token list \<Rightarrow> index \<Rightarrow> (index \<times> (number \<times> number) option) result" where
  "parseOptionalPrecisionScale ts start =
     (case consumeToken ts start LPAREN of
        Some optIdx \<Rightarrow>
          bind (parseLiteralUint ts optIdx) (\<lambda>(idx, precision).
          bind (expectToken ts idx COMMA) (\<lambda>idx.
          bind (parseLiteralUint ts idx) (\<lambda>(idx, scale).
          Return (idx, Some (precision, scale)))))
      | None \<Rightarrow> Return (start, None))"

definition parseOptionalPrecision :: "token list \<Rightarrow> index \<Rightarrow> (index \<times> number option) result" where
  "parseOptionalPrecision ts start =
     (case consumeToken ts start LPAREN of
        Some optIdx \<Rightarrow>
          bind (parseLiteralUint ts optIdx) (\<lambda>(idx, precision).
          bind (expectToken ts idx RPAREN) (\<lambda>idx'. Return (idx', Some precision)))
      | None \<Rightarrow> Return (start, None))"

text \<open>
  \<open>parseDataType\<close>. The mappers of the catalog build the data type from the type name and
  the arguments parsed. \<open>['WITH','WITHOUT'].some(...)\<close> tries \<open>WITH\<close>, then \<open>WITHOUT\<close>.
\<close>

definition parseDataType :: "env \<Rightarrow> token list \<Rightarrow> index \<Rightarrow> (index \<times> DataType) result" where
  "parseDataType env ts start =
     (case nextMeaningfulToken ts start of
        (idx, token) \<Rightarrow>
          if isWord token then
            (if inDataTypeNameL env (nvalue token) then
               bind (parseLength ts idx) (\<lambda>(idx, len). Return (idx, DataTypeL (nvalue token) len))
             else if inDataTypeNameOptPS env (nvalue token) then
               bind (parseOptionalPrecisionScale ts idx) (\<lambda>(idx, ps).
                 Return (idx, DataTypeOptPS (nvalue token) ps))
             else if inDataTypeNameOptP env (nvalue token) then
               bind (parseOptionalPrecision ts idx) (\<lambda>(idx, p).
                 Return (idx, DataTypeOptP (nvalue token) p))
             else if equalToKeyword token (js ''DOUBLE'') then
               (case parseKeyword ts idx (js ''PRECISION'') of
                  (idx, found) \<Rightarrow>
                    Return (idx, DataTypeNoArgs
                      (if found then nvalue token @ js '' PRECISION'' else nvalue token)))
             else if inKeywords token [js ''TIME'', js ''TIMESTAMP''] then
               (case parseKeyword ts idx (js ''WITH'') of
                  (idx, found) \<Rightarrow>
                    if found then
                      bind (expectKeywords ts idx [js ''TIME'', js ''ZONE'']) (\<lambda>idx.
                        Return (idx, DataTypeNoArgs (nvalue token)))
                    else
                      (case parseKeyword ts idx (js ''WITHOUT'') of
                         (idx, found) \<Rightarrow>
                           if found then
                             bind (expectKeywords ts idx [js ''TIME'', js ''ZONE'']) (\<lambda>idx.
                               Return (idx, DataTypeNoArgs (nvalue token)))
                           else Return (idx, DataTypeNoArgs (nvalue token))))
             else if inDataTypeNameNoArgs env (nvalue token) then
               Return (idx, DataTypeNoArgs (nvalue token))
             else Throw (getError (js ''a data type name'') token))
          else Throw (getError (js ''a data type name'') token))"

text \<open>\<open>tryParseDataType\<close> catches a \<open>ParseError\<close> and rethrows any other error.\<close>

definition tryParseDataType ::
  "env \<Rightarrow> token list \<Rightarrow> index \<Rightarrow> (index \<times> DataType option) result" where
  "tryParseDataType env ts start =
     (case parseDataType env ts start of
        Return (idx, dataType) \<Rightarrow> Return (idx, Some dataType)
      | Throw (ParseError m) \<Rightarrow> Return (start, None)
      | Throw err \<Rightarrow> Throw err
      | Timeout \<Rightarrow> Timeout)"

text \<open>
  \<open>expectValue\<close> and \<open>expectLiteralString\<close> read \<open>token.content\<close> of a \<open>SingleQuotedString\<close>.
  The tokenizer's class holds no such property (only the two \<open>NonCharcterStringLiteral\<close>
  classes do), so what they read is \<open>undefined\<close>, here \<open>None\<close>.
\<close>

definition expectValue :: "env \<Rightarrow> token list \<Rightarrow> index \<Rightarrow> (index \<times> Expr) result" where
  "expectValue env ts start =
     (case nextMeaningfulToken ts start of
        (idx, token) \<Rightarrow>
          (case token of
             Tok (Word v) \<Rightarrow>
               if isOneOfKeywords env v [js ''TRUE'', js ''FALSE''] then Return (idx, Value (VBoolean v))
               else if isKeyword env v (js ''NULL'') then Return (idx, Value VNull)
               else Throw (getError (js ''a concrete value'') token)
           | Tok (Num v) \<Rightarrow> Return (idx, Value (VNumber v))
           | Tok (SingleQuotedString v) \<Rightarrow> Return (idx, Value (VSingleQuotedString None))
           | Tok (NationalStringLiteral content prefix) \<Rightarrow>
               Return (idx, Value (VNationalStringLiteral content prefix))
           | Tok (HexStringLiteral content prefix) \<Rightarrow>
               Return (idx, Value (VHexStringLiteral content prefix))
           | _ \<Rightarrow> Throw (getError (js ''a value'') token)))"

definition expectLiteralString :: "token list \<Rightarrow> index \<Rightarrow> (index \<times> jsstring option) result" where
  "expectLiteralString ts start =
     (case nextMeaningfulToken ts start of
        (idx, token) \<Rightarrow>
          (case token of
             Tok (SingleQuotedString v) \<Rightarrow> Return (idx, None)
           | _ \<Rightarrow> Throw (getError (js ''literal string'') token)))"

text \<open>What is left of the token array from a cursor on; it decreases along every loop below.\<close>

fun remaining :: "token list \<Rightarrow> index \<Rightarrow> nat" where
  "remaining ts (Idx i) = length ts - i"
| "remaining ts Infinity = 0"

lemma skipWhitespace_ge: "i \<le> skipWhitespace ts i"
proof (induction ts i rule: skipWhitespace.induct)
  case (1 ts i)
  show ?case
  proof (cases "i < length ts \<and> isWhitespace (ts ! i)")
    case True
    with 1 have "i + 1 \<le> skipWhitespace ts (i + 1)" by simp
    with True show ?thesis by (subst skipWhitespace.simps) auto
  next
    case False
    then show ?thesis by (subst skipWhitespace.simps) auto
  qed
qed

lemma nextMeaningfulToken_progress:
  assumes "nextMeaningfulToken ts start = (idx, Tok t)"
  shows "remaining ts idx < remaining ts start"
proof (cases start)
  case (Idx s)
  with assms have "idx = Idx (skipWhitespace ts s + 1)" and "skipWhitespace ts s < length ts"
    by (auto simp: nextMeaningfulToken_def Let_def split: if_splits)
  with Idx skipWhitespace_ge [of s ts] show ?thesis by simp
next
  case Infinity
  with assms show ?thesis by (simp add: nextMeaningfulToken_def)
qed

lemma consumeToken_progress:
  "consumeToken ts start c = Some idx \<Longrightarrow> remaining ts idx < remaining ts start"
  by (auto simp: consumeToken_def split: prod.splits nextTokenResult.splits if_splits
      dest: nextMeaningfulToken_progress)

lemma parseIdentifier_progress:
  "parseIdentifier ts start = Return (idx, x) \<Longrightarrow> remaining ts idx < remaining ts start"
  by (cases "snd (nextMeaningfulToken ts start)")
     (auto simp: parseIdentifier_def split: prod.splits if_splits
      dest: nextMeaningfulToken_progress)

text \<open>
  \<open>skipToClosingParen\<close>: the \<open>do ... while (lparenCounter)\<close> loop, with the counter and
  the cursor as arguments.
\<close>

function skipToClosingParen_loop :: "token list \<Rightarrow> index \<Rightarrow> int \<Rightarrow> 'a \<Rightarrow> (index \<times> 'a) result" where
  "skipToClosingParen_loop ts idx lparenCounter dummy =
     (case nextMeaningfulToken ts idx of
        (idx', EOF) \<Rightarrow> Throw (getError [39, 41, 39] EOF)
      | (idx', Tok token) \<Rightarrow>
          if token = RPAREN then
            (if lparenCounter - 1 \<noteq> 0 then skipToClosingParen_loop ts idx' (lparenCounter - 1) dummy
             else Return (idx', dummy))
          else if token = LPAREN then
            (if lparenCounter + 1 \<noteq> 0 then skipToClosingParen_loop ts idx' (lparenCounter + 1) dummy
             else Return (idx', dummy))
          else
            (if lparenCounter \<noteq> 0 then skipToClosingParen_loop ts idx' lparenCounter dummy
             else Return (idx', dummy)))"
  by pat_completeness auto
termination
  by (relation "measure (\<lambda>(ts, idx, lparenCounter, dummy). remaining ts idx)")
     (auto dest: nextMeaningfulToken_progress [OF sym])

declare skipToClosingParen_loop.simps [simp del]

definition skipToClosingParen :: "token list \<Rightarrow> index \<Rightarrow> 'a \<Rightarrow> (index \<times> 'a) result" where
  "skipToClosingParen ts start dummy = skipToClosingParen_loop ts start 1 dummy"

text \<open>
  \<open>parseObjectName\<close>: the \<open>do ... while (idx)\<close> loop over the identifiers of a chain
  separated by \<open>:\<close>.
\<close>

function parseObjectName_loop :: "token list \<Rightarrow> index \<Rightarrow> Ident list \<Rightarrow> (index \<times> ObjectName) result" where
  "parseObjectName_loop ts idx idents =
     (case parseIdentifier ts idx of
        Return (r0, ident) \<Rightarrow>
          (case consumeToken ts r0 COLON of
             Some idx' \<Rightarrow> parseObjectName_loop ts idx' (idents @ [ident])
           | None \<Rightarrow> Return (r0, ObjectName (idents @ [ident])))
      | Throw err \<Rightarrow> Throw err
      | Timeout \<Rightarrow> Timeout)"
  by pat_completeness auto
termination
proof (relation "measure (\<lambda>(ts, idx, idents). remaining ts idx)")
  fix ts idx and idents :: "Ident list" and x1 r0 ident idx'
  assume "parseIdentifier ts idx = Return x1" and "(r0, ident) = x1"
    and "consumeToken ts r0 COLON = Some idx'"
  then have "remaining ts idx' < remaining ts r0" and "remaining ts r0 < remaining ts idx"
    by (auto dest: consumeToken_progress parseIdentifier_progress)
  then show "((ts, idx', idents @ [ident]), ts, idx, idents)
      \<in> measure (\<lambda>(ts, idx, idents). remaining ts idx)"
    by simp
qed simp

declare parseObjectName_loop.simps [simp del]

definition parseObjectName :: "token list \<Rightarrow> index \<Rightarrow> (index \<times> ObjectName) result" where
  "parseObjectName ts start = parseObjectName_loop ts start []"

definition parseReferencialAction :: "token list \<Rightarrow> index \<Rightarrow> (index \<times> ReferencialAction) result" where
  "parseReferencialAction ts start =
     (case parseKeyword ts start (js ''RESTRICT'') of (idx, found) \<Rightarrow>
      if found then Return (idx, ReferencialAction (js ''RESTRICT'')) else
     (case parseKeyword ts idx (js ''CASCADE'') of (idx, found) \<Rightarrow>
      if found then Return (idx, ReferencialAction (js ''CASCADE'')) else
     (case parseKeywords ts idx [js ''SET'', js ''NULL''] of (idx, found) \<Rightarrow>
      if found then Return (idx, ReferencialAction (js ''SET NULL'')) else
     (case parseKeywords ts idx [js ''NO'', js ''ACTION''] of (idx, found) \<Rightarrow>
      if found then Return (idx, ReferencialAction (js ''NO ACTION'')) else
     (case parseKeywords ts idx [js ''SET'', js ''DEFAULT''] of (idx, found) \<Rightarrow>
      if found then Return (idx, ReferencialAction (js ''SET DEFAULT'')) else
      Throw (getError (js ''one of RESTRICT, CASCADE, SET NULL, NO ACTION or SET DEFAULT'')
               (peekToken ts idx)))))))"

text \<open>The precedence table and \<open>getNextPrecedence\<close>.\<close>

abbreviation (input) "DEFAULT_0 \<equiv> 0 :: nat"
abbreviation (input) "OR_5 \<equiv> 5 :: nat"
abbreviation (input) "AND_10 \<equiv> 10 :: nat"
abbreviation (input) "UNARY_NOT_15 \<equiv> 15 :: nat"
abbreviation (input) "IS_17 \<equiv> 17 :: nat"
abbreviation (input) "BETWEEN_20 \<equiv> 20 :: nat"
abbreviation (input) "EQ_20 \<equiv> 20 :: nat"
abbreviation (input) "PIPE_21 \<equiv> 21 :: nat"
abbreviation (input) "CARET_22 \<equiv> 22 :: nat"
abbreviation (input) "AMPERSAND_23 \<equiv> 23 :: nat"
abbreviation (input) "PLUS_MINUS_30 \<equiv> 30 :: nat"
abbreviation (input) "MULT_40 \<equiv> 40 :: nat"
abbreviation (input) "DOUBLE_COLON_50 \<equiv> 50 :: nat"

definition operatorPrecedence :: "nextTokenResult \<Rightarrow> nat" where
  "operatorPrecedence token =
     (case token of
        EOF \<Rightarrow> DEFAULT_0
      | Tok t \<Rightarrow>
          if t \<in> set [EQ, LT, LTEQ, NEQ, NEQ2, GT, GTEQ] then EQ_20
          else if PIPE = t then PIPE_21
          else if t \<in> set [CARET, HASH, SHIFT_RIGHT, SHIFT_LEFT] then CARET_22
          else if AMPERSAND = t then AMPERSAND_23
          else if t \<in> set [PLUS, MINUS] then PLUS_MINUS_30
          else if t \<in> set [MULT, MOD, DIV, CONCAT] then MULT_40
          else if t \<in> set [DOUBLE_COLON, EXCLAMATION_MARK] then DOUBLE_COLON_50
          else DEFAULT_0)"

definition getNextPrecedence :: "env \<Rightarrow> token list \<Rightarrow> index \<Rightarrow> nat" where
  "getNextPrecedence env ts start =
     (case nextMeaningfulToken ts start of
        (idx, token) \<Rightarrow>
          (case token of
             Tok (Word v) \<Rightarrow>
               if isKeyword env v (js ''OR'') then OR_5
               else if isKeyword env v (js ''AND'') then AND_10
               else if isKeyword env v (js ''NOT'') then
                 (if inKeywords (snd (nextMeaningfulToken ts idx)) [js ''IN'', js ''BETWEEN'', js ''LIKE'']
                  then BETWEEN_20 else DEFAULT_0)
               else if inKeywords token [js ''IN'', js ''BETWEEN'', js ''LIKE''] then BETWEEN_20
               else if isKeyword env v (js ''IS'') then IS_17
               else operatorPrecedence token
           | _ \<Rightarrow> operatorPrecedence token))"

section \<open>Parser: expressions\<close>

text \<open>
  \<open>parseCommaSeparated\<close>: the \<open>do ... while (idx)\<close> loop around the callback, with the
  values collected so far as an argument.
\<close>

fun parseCommaSeparated_loop ::
  "nat \<Rightarrow> token list \<Rightarrow> index \<Rightarrow> (token list \<Rightarrow> index \<Rightarrow> (index \<times> 'a) result) \<Rightarrow> 'a list
   \<Rightarrow> (index \<times> 'a list) result" where
  "parseCommaSeparated_loop 0 ts idx callback values = Timeout"
| "parseCommaSeparated_loop (Suc n) ts idx callback values =
     bind (callback ts idx) (\<lambda>(r0, v).
       case consumeToken ts r0 COMMA of
         Some idx' \<Rightarrow> parseCommaSeparated_loop n ts idx' callback (values @ [v])
       | None \<Rightarrow> Return (r0, values @ [v]))"

definition parseCommaSeparated ::
  "nat \<Rightarrow> token list \<Rightarrow> index \<Rightarrow> (token list \<Rightarrow> index \<Rightarrow> (index \<times> 'a) result)
   \<Rightarrow> (index \<times> 'a list) result" where
  "parseCommaSeparated n ts start callback = parseCommaSeparated_loop n ts start callback []"

text \<open>
  The expression parser. Its functions call each other and \<open>parseExpr\<close> recursively, so
  \<open>parseExpr\<close> takes fuel, and each of the others takes as \<open>parseExpr'\<close> the function
  \<open>parseExpr\<close> with the fuel that is left (its arguments: the tokens, the start and the
  precedence, 0 where the source leaves it out). The loops take fuel of their own.
  \<^item> \<open>parseExpr_loop\<close> is the \<open>for (;;)\<close> loop of \<open>parseExpr\<close>.
  \<^item> \<open>parsePrefix_iife\<close> is the function expression that \<open>parsePrefix\<close> calls in place; it
    ends in \<open>parsePrefix_ident\<close> (from \<open>if (token instanceof tk.WordIdent)\<close> on) and that in
    \<open>parsePrefix_rest\<close> (from \<open>if (token === tk.MULT)\<close> on), which see the token as
    reassigned by \<open>token = peekToken(tokenSet, idx)\<close>.
  \<^item> In \<open>parsePrefix_ident\<close> the \<open>while\<close> loop over \<open>.\<close> leaves on its first turn on every
    path (\<open>break\<close> or \<open>throw\<close>), so it is written without recursion.
  \<^item> \<open>parseCase_loop\<close> is the \<open>do ... while (found)\<close> loop of \<open>parseCase\<close> with what
    follows it.
\<close>

type_synonym exprParser = "token list \<Rightarrow> index \<Rightarrow> nat \<Rightarrow> (index \<times> Expr) result"

definition parseCast :: "exprParser \<Rightarrow> env \<Rightarrow> token list \<Rightarrow> index \<Rightarrow> (index \<times> Expr) result" where
  "parseCast parseExpr' env ts start =
     bind (expectToken ts start LPAREN) (\<lambda>idx.
     bind (parseExpr' ts idx DEFAULT_0) (\<lambda>(idx, expr).
     bind (expectKeyword ts idx (js ''AS'')) (\<lambda>idx.
     bind (parseDataType env ts idx) (\<lambda>(idx, dataType).
     bind (expectToken ts idx RPAREN) (\<lambda>idx.
     Return (idx, Cast expr dataType))))))"

fun parseCase_loop ::
  "nat \<Rightarrow> exprParser \<Rightarrow> token list \<Rightarrow> index \<Rightarrow> Expr option \<Rightarrow> Expr list \<Rightarrow> Expr list
   \<Rightarrow> (index \<times> Expr) result" where
  "parseCase_loop 0 parseExpr' ts idx operand conditions results = Timeout"
| "parseCase_loop (Suc n) parseExpr' ts idx operand conditions results =
     bind (parseExpr' ts idx DEFAULT_0) (\<lambda>(idx, cond).
     bind (expectKeyword ts idx (js ''WHEN'')) (\<lambda>idx.
     bind (parseExpr' ts idx DEFAULT_0) (\<lambda>(idx, res).
       case parseKeyword ts idx (js ''WHEN'') of
         (idx, found) \<Rightarrow>
           if found then
             parseCase_loop n parseExpr' ts idx operand (conditions @ [cond]) (results @ [res])
           else
             (case parseKeyword ts idx (js ''ELSE'') of
                (idx, found) \<Rightarrow>
                  if found then
                    bind (parseExpr' ts idx DEFAULT_0) (\<lambda>(idxElse, elseResult).
                    bind (expectKeyword ts idx (js ''END'')) (\<lambda>idx.
                    Return (idx, Case operand (conditions @ [cond]) (results @ [res])
                                   (Some elseResult))))
                  else
                    bind (expectKeyword ts idx (js ''END'')) (\<lambda>idx.
                    Return (idx, Case operand (conditions @ [cond]) (results @ [res]) None))))))"

definition parseCase :: "nat \<Rightarrow> exprParser \<Rightarrow> token list \<Rightarrow> index \<Rightarrow> (index \<times> Expr) result" where
  "parseCase n parseExpr' ts start =
     (case parseKeyword ts start (js ''WHEN'') of
        (idx, found) \<Rightarrow>
          if \<not> found then
            bind (parseExpr' ts idx DEFAULT_0) (\<lambda>(idx, operand).
            bind (expectKeyword ts idx (js ''WHEN'')) (\<lambda>idx.
            parseCase_loop n parseExpr' ts idx (Some operand) [] []))
          else parseCase_loop n parseExpr' ts idx None [] [])"

definition parsePrefix_rest ::
  "exprParser \<Rightarrow> env \<Rightarrow> token list \<Rightarrow> index \<Rightarrow> index \<Rightarrow> nextTokenResult \<Rightarrow> (index \<times> Expr) result" where
  "parsePrefix_rest parseExpr' env ts prevIdx idx token =
     (if token = Tok MULT then Return (idx, Wildcard)
      else if token = Tok PLUS \<or> token = Tok MINUS then
        bind (parseExpr' ts idx PLUS_MINUS_30) (\<lambda>(idx, expr).
          Return (idx, UnaryOp (UnaryOperator (nvalue token)) expr))
      else if isNumber token \<or> isStringLiteral token then expectValue env ts prevIdx
      else if token = Tok LPAREN then skipToClosingParen ts idx Subquery
      else Throw (getError (js ''an expression'') token))"

definition parsePrefix_ident ::
  "exprParser \<Rightarrow> env \<Rightarrow> token list \<Rightarrow> index \<Rightarrow> index \<Rightarrow> nextTokenResult \<Rightarrow> (index \<times> Expr) result" where
  "parsePrefix_ident parseExpr' env ts prevIdx idx word =
     (if isWordIdent word then
        (if peekToken ts idx = Tok LPAREN \<or> peekToken ts idx = Tok PERIOD then
           (case consumeToken ts idx PERIOD of
              Some optIdx \<Rightarrow>
                (case nextMeaningfulToken ts optIdx of
                   (idx', token) \<Rightarrow>
                     if isWordIdent token then
                       Throw (getError
                         (js ''an identifier or a '' @ [39, 42, 39] @ js '' after '' @ [39, 46, 39])
                         token)
                     else if token = Tok MULT then Return (idx', QualifiedWildcard [toIdent word])
                     else
                       Throw (getError
                         (js ''an identifier or a '' @ [39, 42, 39] @ js '' after '' @ [39, 46, 39])
                         token))
            | None \<Rightarrow>
                (case consumeToken ts idx LPAREN of
                   Some optIdx \<Rightarrow> skipToClosingParen ts idx Function
                 | None \<Rightarrow> Return (idx, Identifier (toIdent word))))
         else parsePrefix_rest parseExpr' env ts prevIdx idx (peekToken ts idx))
      else parsePrefix_rest parseExpr' env ts prevIdx idx word)"

definition parsePrefix_iife ::
  "nat \<Rightarrow> exprParser \<Rightarrow> env \<Rightarrow> token list \<Rightarrow> index \<Rightarrow> index \<Rightarrow> nextTokenResult
   \<Rightarrow> (index \<times> Expr) result" where
  "parsePrefix_iife n parseExpr' env ts prevIdx idx token =
     (case token of
        Tok (Word v) \<Rightarrow>
          if isOneOfKeywords env v [js ''TRUE'', js ''FALSE'', js ''NULL''] then
            expectValue env ts prevIdx
          else if isKeyword env v (js ''CASE'') then parseCase n parseExpr' ts idx
          else if isKeyword env v (js ''CAST'') then parseCast parseExpr' env ts idx
          else if isKeyword env v (js ''EXISTS'') then
            bind (expectToken ts idx LPAREN) (\<lambda>idx. skipToClosingParen ts idx Exists)
          else if isKeyword env v (js ''EXTRACT'') then
            bind (expectToken ts idx LPAREN) (\<lambda>idx. skipToClosingParen ts idx Extract)
          else if isKeyword env v (js ''INTERVAL'') then
            Throw (unsupportedExprssion (peekToken ts idx))
          else if isKeyword env v (js ''LISTAGG'') then
            bind (expectToken ts idx LPAREN) (\<lambda>idx. skipToClosingParen ts idx ListAgg)
          else if isKeyword env v (js ''NOT'') then
            bind (parseExpr' ts idx DEFAULT_0) (\<lambda>(idx, expr).
              Return (idx, UnaryOp (UnaryOperator (js ''NOT'')) expr))
          else parsePrefix_ident parseExpr' env ts prevIdx idx token
      | _ \<Rightarrow> parsePrefix_ident parseExpr' env ts prevIdx idx token)"

definition parsePrefix ::
  "nat \<Rightarrow> exprParser \<Rightarrow> env \<Rightarrow> token list \<Rightarrow> index \<Rightarrow> (index \<times> Expr) result" where
  "parsePrefix n parseExpr' env ts start =
     bind (tryParseDataType env ts start) (\<lambda>(idx, dataType).
       case dataType of
         Some dt \<Rightarrow>
           bind (expectLiteralString ts start) (\<lambda>(idx, v). Return (idx, TypedString dt v))
       | None \<Rightarrow>
           (case nextMeaningfulToken ts idx of
              (idx', token) \<Rightarrow>
                bind (parsePrefix_iife n parseExpr' env ts idx idx' token) (\<lambda>(idx, expr).
                  case parseKeyword ts idx (js ''COLLATE'') of
                    (idx, found) \<Rightarrow>
                      if found then
                        bind (parseObjectName ts idx) (\<lambda>(idx, collate).
                          Return (idx, Collate expr collate))
                      else Return (idx, expr))))"

definition parseBetween ::
  "exprParser \<Rightarrow> token list \<Rightarrow> index \<Rightarrow> Expr \<Rightarrow> bool \<Rightarrow> (index \<times> Expr) result" where
  "parseBetween parseExpr' ts start expr negated =
     bind (parseExpr' ts start BETWEEN_20) (\<lambda>(idx, low).
     bind (expectKeyword ts idx (js ''AND'')) (\<lambda>idx.
     bind (parseExpr' ts idx BETWEEN_20) (\<lambda>(idx, high).
     Return (idx, Between expr negated low high))))"

definition parseIn ::
  "nat \<Rightarrow> exprParser \<Rightarrow> token list \<Rightarrow> index \<Rightarrow> Expr \<Rightarrow> bool \<Rightarrow> (index \<times> Expr) result" where
  "parseIn n parseExpr' ts start expr negated =
     bind (expectToken ts start LPAREN) (\<lambda>idx.
       case parseKeywords ts idx [js ''SELECT'', js ''WITH''] of
         (idx, found) \<Rightarrow>
           if found then
             Throw (getError (js ''columns (subquery is not supported)'') (peekToken ts idx))
           else
             bind (parseCommaSeparated n ts idx (\<lambda>ts idx. parseExpr' ts idx DEFAULT_0))
               (\<lambda>(idx, exs).
             bind (expectToken ts idx RPAREN) (\<lambda>idx.
             Return (idx, InList expr exs negated))))"

definition parseInfix ::
  "nat \<Rightarrow> exprParser \<Rightarrow> token list \<Rightarrow> index \<Rightarrow> Expr \<Rightarrow> nat \<Rightarrow> (index \<times> Expr) result" where
  "parseInfix n parseExpr' ts start expr precedence =
     (case nextMeaningfulToken ts start of
        (idx, token) \<Rightarrow>
          if token = EOF then Throw (ParseError (js ''unexpected EOF while parsing infix''))
          else if isOperator token \<or> inKeywords token [js ''AND'', js ''OR'', js ''LIKE''] then
            bind (parseExpr' ts idx DEFAULT_0) (\<lambda>(idx, right).
              Return (idx, BinaryOp expr (BinaryOperator (nvalue token)) right))
          else
            (case parseKeywords ts idx [js ''NOT'', js ''LIKE''] of
               (idx, found) \<Rightarrow>
                 if found then
                   bind (parseExpr' ts idx precedence) (\<lambda>(idx, right).
                     Return (idx, BinaryOp expr (BinaryOperator (js ''NOT LIKE'')) right))
                 else if equalToKeyword token (js ''IS'') then
                   (case parseKeyword ts idx (js ''NULL'') of
                      (idx, found) \<Rightarrow>
                        if found then Return (idx, IsNull expr)
                        else
                          (case parseKeywords ts idx [js ''NOT'', js ''NULL''] of
                             (idx, found) \<Rightarrow>
                               if found then Return (idx, IsNotNull expr)
                               else Throw (ParseError
                                 (js ''No infix parser for token '' @ nvalue token))))
                 else if inKeywords token [js ''NOT'', js ''IN'', js ''BETWEEN''] then
                   (case parseKeyword ts idx (js ''IN'') of
                      (idx, found) \<Rightarrow>
                        if found then
                          parseIn n parseExpr' ts idx expr (equalToKeyword token (js ''NOT''))
                        else
                          (case parseKeyword ts idx (js ''BETWEEN'') of
                             (idx, found) \<Rightarrow>
                               if found then
                                 parseBetween parseExpr' ts idx expr
                                   (equalToKeyword token (js ''NOT''))
                               else Throw (getError (js ''IN or BETWEEN after NOT'')
                                             (peekToken ts idx))))
                 else Throw (ParseError (js ''No infix parser for token '' @ nvalue token))))"

fun parseExpr_loop ::
  "nat \<Rightarrow> exprParser \<Rightarrow> env \<Rightarrow> token list \<Rightarrow> index \<Rightarrow> Expr \<Rightarrow> nat \<Rightarrow> (index \<times> Expr) result" where
  "parseExpr_loop 0 parseExpr' env ts idx expr precedence = Timeout"
| "parseExpr_loop (Suc n) parseExpr' env ts idx expr precedence =
     (if precedence \<ge> getNextPrecedence env ts idx then Return (idx, expr)
      else bind (parseInfix n parseExpr' ts idx expr (getNextPrecedence env ts idx))
             (\<lambda>(idx, expr). parseExpr_loop n parseExpr' env ts idx expr precedence))"

primrec parseExpr :: "nat \<Rightarrow> env \<Rightarrow> exprParser" where
  "parseExpr 0 env = (\<lambda>ts start precedence. Timeout)"
| "parseExpr (Suc n) env = (\<lambda>ts start precedence.
     bind (parsePrefix n (parseExpr n env) env ts start) (\<lambda>(idx, expr).
       parseExpr_loop n (parseExpr n env) env ts idx expr precedence))"

section \<open>Parser: columns, constraints and statements\<close>

definition parseParenthesizedColumnList ::
  "nat \<Rightarrow> token list \<Rightarrow> index \<Rightarrow> bool \<Rightarrow> (index \<times> Ident list) result" where
  "parseParenthesizedColumnList n ts start isOptional =
     (case consumeToken ts start LPAREN of
        Some optIdx \<Rightarrow>
          bind (parseCommaSeparated n ts optIdx parseIdentifier) (\<lambda>(idx, idents).
          bind (expectToken ts idx RPAREN) (\<lambda>idx'. Return (idx', idents)))
      | None \<Rightarrow>
          if isOptional then Return (start, [])
          else Throw (getError (js ''a list of columns in parentheses'') (peekToken ts start)))"

text \<open>
  The \<open>for (;;)\<close> loop of the \<open>REFERENCES\<close> option, with \<open>idx\<close>, \<open>onDelete\<close> and
  \<open>onUpdate\<close> as arguments. It leaves only by \<open>break\<close>, when both actions are set.
\<close>

fun referencesLoop ::
  "nat \<Rightarrow> token list \<Rightarrow> index \<Rightarrow> ReferencialAction option \<Rightarrow> ReferencialAction option
   \<Rightarrow> (index \<times> ReferencialAction option \<times> ReferencialAction option) result" where
  "referencesLoop 0 ts idx onDelete onUpdate = Timeout"
| "referencesLoop (Suc n) ts idx onDelete onUpdate =
     (if onDelete = None then
        (case parseKeywords ts idx [js ''ON'', js ''DELETE''] of
           (idx, found) \<Rightarrow>
             if found then
               bind (parseReferencialAction ts idx) (\<lambda>(idx, action).
                 referencesLoop n ts idx (Some action) onUpdate)
             else referencesLoop n ts idx onDelete onUpdate)
      else if onUpdate = None then
        (case parseKeywords ts idx [js ''ON'', js ''UPDATE''] of
           (idx, found) \<Rightarrow>
             if found then
               bind (parseReferencialAction ts idx) (\<lambda>(idx, action).
                 referencesLoop n ts idx onDelete (Some action))
             else referencesLoop n ts idx onDelete onUpdate)
      else Return (idx, onDelete, onUpdate))"

definition parseOptionalColumnOption ::
  "nat \<Rightarrow> env \<Rightarrow> token list \<Rightarrow> index \<Rightarrow> (index \<times> ColumnOption option) result" where
  "parseOptionalColumnOption n env ts start =
     (case parseKeywords ts start [js ''NOT'', js ''NULL''] of (idx, found) \<Rightarrow>
      if found then Return (idx, Some OptNotNull) else
     (case parseKeyword ts idx (js ''NULL'') of (idx, found) \<Rightarrow>
      if found then Return (idx, Some OptNull) else
     (case parseKeyword ts idx (js ''DEFAULT'') of (idx, found) \<Rightarrow>
      if found then
        bind (parseExpr n env ts idx DEFAULT_0) (\<lambda>(idx, expr). Return (idx, Some (OptDefault expr)))
      else
     (case parseKeywords ts idx [js ''PRIMARY'', js ''KEY''] of (idx, found) \<Rightarrow>
      if found then Return (idx, Some (OptUnique True)) else
     (case parseKeyword ts idx (js ''UNIQUE'') of (idx, found) \<Rightarrow>
      if found then Return (idx, Some (OptUnique False)) else
     (case parseKeyword ts idx (js ''REFERENCES'') of (idx, found) \<Rightarrow>
      if found then
        bind (parseObjectName ts idx) (\<lambda>(idx, foreignTable).
        bind (parseParenthesizedColumnList n ts idx True) (\<lambda>(idx, referredColumns).
        bind (referencesLoop n ts idx None None) (\<lambda>(idx, onDelete, onUpdate).
        Return (idx, Some (OptForeign foreignTable referredColumns onDelete onUpdate)))))
      else
     (case parseKeyword ts idx (js ''CHECK'') of (idx, found) \<Rightarrow>
      if found then
        bind (expectToken ts idx LPAREN) (\<lambda>idx.
        bind (parseExpr n env ts idx DEFAULT_0) (\<lambda>(idx, expr).
        bind (expectToken ts idx RPAREN) (\<lambda>idx.
        Return (idx, Some (OptCheck expr)))))
      else
     (case parseKeyword ts idx (js ''AUTO_INCREMENT'') of (idx, found) \<Rightarrow>
      if found then Return (idx, Some (OptDiarectSpecific (js ''AUTO_INCREMENT''))) else
     (case parseKeyword ts idx (js ''AUTOINCREMENT'') of (idx, found) \<Rightarrow>
      if found then Return (idx, Some (OptDiarectSpecific (js ''AUTOINCREMENT''))) else
      Return (idx, None))))))))))"

text \<open>The \<open>for (;;)\<close> loop of \<open>parseColumnDef\<close> over the options of a column.\<close>

fun parseColumnDef_loop ::
  "nat \<Rightarrow> env \<Rightarrow> token list \<Rightarrow> index \<Rightarrow> Ident \<Rightarrow> DataType \<Rightarrow> ObjectName option
   \<Rightarrow> ColumnOptionDef list \<Rightarrow> (index \<times> ColumnDef) result" where
  "parseColumnDef_loop 0 env ts idx colName dataType collation options = Timeout"
| "parseColumnDef_loop (Suc n) env ts idx colName dataType collation options =
     (case parseKeyword ts idx (js ''CONSTRAINT'') of
        (idx, found) \<Rightarrow>
          if found then
            bind (parseIdentifier ts idx) (\<lambda>(idx, optName).
            bind (parseOptionalColumnOption n env ts idx) (\<lambda>(idx, option).
              case option of
                Some opt \<Rightarrow>
                  parseColumnDef_loop n env ts idx colName dataType collation
                    (options @ [ColumnOptionDef (Some optName) opt])
              | None \<Rightarrow>
                  Throw (getError (js ''constraint details after CONSTRAINT <name>'')
                           (peekToken ts idx))))
          else
            bind (parseOptionalColumnOption n env ts idx) (\<lambda>(idx, option).
              case option of
                Some opt \<Rightarrow>
                  parseColumnDef_loop n env ts idx colName dataType collation
                    (options @ [ColumnOptionDef None opt])
              | None \<Rightarrow> Return (idx, ColumnDef colName dataType collation options)))"

definition parseColumnDef :: "nat \<Rightarrow> env \<Rightarrow> token list \<Rightarrow> index \<Rightarrow> (index \<times> ColumnDef) result" where
  "parseColumnDef n env ts start =
     bind (parseIdentifier ts start) (\<lambda>(idx, colName).
     bind (parseDataType env ts idx) (\<lambda>(idx, dataType).
       case parseKeyword ts idx (js ''COLLATE'') of
         (idx, found) \<Rightarrow>
           if found then
             bind (parseObjectName ts idx) (\<lambda>(idx, collation).
               parseColumnDef_loop n env ts idx colName dataType (Some collation) [])
           else parseColumnDef_loop n env ts idx colName dataType None []))"

definition parseOptionalTableConstraint ::
  "nat \<Rightarrow> env \<Rightarrow> token list \<Rightarrow> index \<Rightarrow> (index \<times> TableConstraint option) result" where
  "parseOptionalTableConstraint n env ts start =
     (case parseKeyword ts start (js ''CONSTRAINT'') of
        (idx, found) \<Rightarrow>
          if \<not> found then Return (start, None)
          else
            bind (parseIdentifier ts idx) (\<lambda>(idx, cName).
              case nextMeaningfulToken ts idx of
                (idx, token) \<Rightarrow>
                  if token \<noteq> EOF \<and> inKeywords token [js ''PRIMARY'', js ''UNIQUE''] then
                    bind (if equalToKeyword token (js ''PRIMARY'')
                          then expectKeyword ts idx (js ''KEY'') else Return idx) (\<lambda>idx.
                    bind (parseParenthesizedColumnList n ts idx False) (\<lambda>(idx, cols).
                    Return (idx, Some (Unique (Some cName) cols
                                         (equalToKeyword token (js ''PRIMARY''))))))
                  else if token \<noteq> EOF \<and> equalToKeyword token (js ''FOREIGN'') then
                    bind (expectKeyword ts idx (js ''KEY'')) (\<lambda>idx.
                    bind (parseParenthesizedColumnList n ts idx False) (\<lambda>(idx, cols).
                    bind (expectKeyword ts idx (js ''REFERENCES'')) (\<lambda>idx.
                    bind (parseObjectName ts idx) (\<lambda>(idx, foreignTable).
                    bind (parseParenthesizedColumnList n ts idx False) (\<lambda>(idx, referredColumns).
                    Return (idx, Some (ForeignKey (Some cName) cols foreignTable
                                         referredColumns)))))))
                  else if token \<noteq> EOF \<and> equalToKeyword token (js ''CHECK'') then
                    bind (expectToken ts idx LPAREN) (\<lambda>idx.
                    bind (parseExpr n env ts idx DEFAULT_0) (\<lambda>(idx, expr).
                    bind (expectToken ts idx RPAREN) (\<lambda>idx.
                    Return (idx, Some (Check (Some cName) expr)))))
                  else
                    Throw (getError (js ''PRIMARY, UNIQUE, FOREIGN, or CHECK'')
                             (peekToken ts idx))))"

text \<open>
  The \<open>do ... while (optIdxRParen)\<close> loop of \<open>parseColumns\<close>. Every turn starts again from
  \<open>start\<close>, the cursor \<open>parseColumns\<close> was called with, and the loop goes on while a closing
  parenthesis was found.
\<close>

fun parseColumns_loop ::
  "nat \<Rightarrow> env \<Rightarrow> token list \<Rightarrow> index \<Rightarrow> ColumnDef list \<Rightarrow> TableConstraint list
   \<Rightarrow> (index \<times> ColumnDef list \<times> TableConstraint list) result" where
  "parseColumns_loop 0 env ts start cols cons = Timeout"
| "parseColumns_loop (Suc n) env ts start cols cons =
     bind (parseOptionalTableConstraint n env ts start) (\<lambda>(idx, optConstraints).
       if isWordIdent (peekToken ts idx) then
         bind (parseColumnDef n env ts idx) (\<lambda>(idx', columnDef).
           case consumeToken ts idx' COMMA of
             Some optIdxComma \<Rightarrow>
               (case consumeToken ts optIdxComma RPAREN of
                  Some optIdxRParen \<Rightarrow>
                    parseColumns_loop n env ts start (cols @ [columnDef])
                      (cons @ (case optConstraints of Some c \<Rightarrow> [c] | None \<Rightarrow> []))
                | None \<Rightarrow>
                    Return (optIdxComma, cols @ [columnDef],
                            cons @ (case optConstraints of Some c \<Rightarrow> [c] | None \<Rightarrow> [])))
           | None \<Rightarrow>
               (case consumeToken ts idx' RPAREN of
                  Some optIdxRParen \<Rightarrow>
                    parseColumns_loop n env ts start (cols @ [columnDef])
                      (cons @ (case optConstraints of Some c \<Rightarrow> [c] | None \<Rightarrow> []))
                | None \<Rightarrow>
                    Throw (getError ([39, 44, 39] @ js '' or '' @ [39, 41, 39]
                                     @ js '' after column definition'')
                             (peekToken ts idx))))
       else Throw (getError (js ''column name or constraint definition'') (peekToken ts idx)))"

definition parseColumns ::
  "nat \<Rightarrow> env \<Rightarrow> token list \<Rightarrow> index \<Rightarrow> (index \<times> ColumnDef list \<times> TableConstraint list) result" where
  "parseColumns n env ts start =
     (if consumeToken ts start LPAREN = None then Return (start, [], [])
      else
        (case consumeToken ts start RPAREN of
           Some optIdx \<Rightarrow> Return (optIdx, [], [])
         | None \<Rightarrow> parseColumns_loop n env ts start [] []))"

definition parseCreateTableStatement ::
  "nat \<Rightarrow> env \<Rightarrow> token list \<Rightarrow> index \<Rightarrow> bool \<Rightarrow> CreateTableStatement result" where
  "parseCreateTableStatement n env ts start orReplace' =
     (case parseKeywords ts start [js ''IF'', js ''NOT'', js ''EXISTS''] of
        (idx, ifNotExists') \<Rightarrow>
     bind (parseObjectName ts idx) (\<lambda>(idx, tableName).
     bind (parseColumns n env ts idx) (\<lambda>(idx, columns', constraints').
       case parseKeywords ts idx [js ''WITHOUT'', js ''ROWID''] of
         (idx, withoutRowid') \<Rightarrow>
       (case parseKeyword ts idx (js ''WITH'') of
         (idx, withOptionsFound) \<Rightarrow>
       bind (if withOptionsFound then
               bind (expectToken ts idx LPAREN) (\<lambda>idx.
               bind (skipToClosingParen ts idx [SqlOption]) (\<lambda>(idx, opts).
               bind (expectToken ts idx RPAREN) (\<lambda>idx. Return (idx, opts))))
             else Return (idx, [])) (\<lambda>(idx, withOptions').
         case parseKeyword ts idx (js ''AS'') of
           (idx, asFound) \<Rightarrow>
             if asFound then Throw (unsupportedExprssion (peekToken ts idx))
             else Return \<lparr>name = tableName, columns = columns', constraints = constraints',
                           withOptions = withOptions', orReplace = orReplace',
                           ifNotExists = ifNotExists', withoutRowid = withoutRowid',
                           external = False, fileFormat = None, location = None,
                           query = None\<rparr>)))))"

definition parseCreateStatement ::
  "nat \<Rightarrow> env \<Rightarrow> token list \<Rightarrow> index \<Rightarrow> CreateTableStatement result" where
  "parseCreateStatement n env ts start =
     (case parseKeyword ts start (js ''CREATE'') of
        (idx, found) \<Rightarrow>
          if \<not> found then Throw (getError (js ''a create statement'') (peekToken ts idx))
          else
            (case parseKeywords ts idx [js ''OR'', js ''REPLACE''] of
               (idx, found) \<Rightarrow> parseCreateTableStatement n env ts idx found))"

text \<open>
  The inner loop of \<open>parse\<close>, which skips the statement terminators, and its outer loop.
  \<open>parse_loop\<close> returns the variables \<open>idx\<close> and \<open>statements\<close> as they are when the
  loop is left by \<open>break\<close>. \<open>parse\<close> itself has no \<open>return\<close> statement: it returns
  \<open>undefined\<close>.
\<close>

function skipSemicolons :: "token list \<Rightarrow> index \<Rightarrow> bool \<Rightarrow> index \<times> bool" where
  "skipSemicolons ts idx expectingStatementDelimiter =
     (case consumeToken ts idx SEMICOLON of
        None \<Rightarrow> (idx, expectingStatementDelimiter)
      | Some optIdx \<Rightarrow> skipSemicolons ts optIdx False)"
  by pat_completeness auto
termination
  by (relation "measure (\<lambda>(ts, idx, e). remaining ts idx)")
     (auto dest: consumeToken_progress)

declare skipSemicolons.simps [simp del]

fun parse_loop ::
  "nat \<Rightarrow> env \<Rightarrow> token list \<Rightarrow> index \<Rightarrow> bool \<Rightarrow> CreateTableStatement list
   \<Rightarrow> (index \<times> CreateTableStatement list) result" where
  "parse_loop 0 env ts idx expectingStatementDelimiter statements = Timeout"
| "parse_loop (Suc n) env ts idx expectingStatementDelimiter statements =
     (case skipSemicolons ts idx expectingStatementDelimiter of
        (idx, expectingStatementDelimiter) \<Rightarrow>
          if lengthLe ts idx then Return (idx, statements)
          else if expectingStatementDelimiter then Throw (Error [])
          else
            bind (parseCreateStatement n env ts idx) (\<lambda>stmt.
              parse_loop n env ts idx expectingStatementDelimiter (statements @ [stmt])))"

definition parse :: "nat \<Rightarrow> env \<Rightarrow> jsstring \<Rightarrow> unit result" where
  "parse n env src =
     (case tokenize src of
        Inl err \<Rightarrow> Throw err
      | Inr tokenSet \<Rightarrow>
          bind (parse_loop n env tokenSet (Idx 0) False []) (\<lambda>(idx, statements). Return ()))"

section \<open>An instance of the collaborators\<close>

text \<open>
  Modelled from the spec: an instance of \<open>env\<close> for the inputs the spec gives as examples.
  A word is a keyword when it is that keyword exactly, as in the parser's own
  \<open>equalToKeyword\<close>; the catalog holds the two type names of the spec's example,
  \<open>VARCHAR\<close> with a length and \<open>INT\<close> without arguments.
\<close>

definition exampleEnv :: env where
  "exampleEnv =
     \<lparr> isKeyword = (\<lambda>word keyword. word = keyword),
       inDataTypeNameL = (\<lambda>v. v = js ''VARCHAR''),
       inDataTypeNameOptPS = (\<lambda>v. False),
       inDataTypeNameOptP = (\<lambda>v. False),
       inDataTypeNameNoArgs = (\<lambda>v. v = js ''INT'') \<rparr>"

section \<open>Evaluation rules for the parser\<close>

text \<open>
  Equations for running the parser on concrete tokens with the simplifier. A function
  with fuel unfolds where the fuel is positive; \<open>parseExpr\<close> unfolds only when applied to
  all its arguments.
\<close>

lemma skipWhitespace_stop:
  "\<not> (i < length ts \<and> isWhitespace (ts ! i)) \<Longrightarrow> skipWhitespace ts i = i"
  by (subst skipWhitespace.simps) auto

lemma skipWhitespace_step:
  "i < length ts \<Longrightarrow> isWhitespace (ts ! i) \<Longrightarrow> skipWhitespace ts i = skipWhitespace ts (i + 1)"
  by (subst skipWhitespace.simps) auto

declare parseExpr.simps [simp del]

lemma parseExpr_0: "parseExpr 0 env ts start precedence = Timeout"
  by (simp add: parseExpr.simps)

lemma parseExpr_fuel:
  "0 < n \<Longrightarrow> parseExpr n env ts start precedence =
     bind (parsePrefix (n - 1) (parseExpr (n - 1) env) env ts start) (\<lambda>(idx, expr).
       parseExpr_loop (n - 1) (parseExpr (n - 1) env) env ts idx expr precedence)"
  using parseExpr.simps(2) [of "n - 1"] by simp

lemma parseExpr_loop_fuel:
  "0 < n \<Longrightarrow> parseExpr_loop n parseExpr' env ts idx expr precedence =
     (if precedence \<ge> getNextPrecedence env ts idx then Return (idx, expr)
      else bind (parseInfix (n - 1) parseExpr' ts idx expr (getNextPrecedence env ts idx))
             (\<lambda>(idx, expr). parseExpr_loop (n - 1) parseExpr' env ts idx expr precedence))"
  using parseExpr_loop.simps(2) [of "n - 1"] by simp

lemma parseCommaSeparated_loop_fuel:
  "0 < n \<Longrightarrow> parseCommaSeparated_loop n ts idx callback values =
     bind (callback ts idx) (\<lambda>(r0, v).
       case consumeToken ts r0 COMMA of
         Some idx' \<Rightarrow> parseCommaSeparated_loop (n - 1) ts idx' callback (values @ [v])
       | None \<Rightarrow> Return (r0, values @ [v]))"
  using parseCommaSeparated_loop.simps(2) [of "n - 1"] by simp

lemma parseCase_loop_fuel:
  "0 < n \<Longrightarrow> parseCase_loop n parseExpr' ts idx operand conditions results =
     bind (parseExpr' ts idx DEFAULT_0) (\<lambda>(idx, cond).
     bind (expectKeyword ts idx (js ''WHEN'')) (\<lambda>idx.
     bind (parseExpr' ts idx DEFAULT_0) (\<lambda>(idx, res).
       case parseKeyword ts idx (js ''WHEN'') of
         (idx, found) \<Rightarrow>
           if found then
             parseCase_loop (n - 1) parseExpr' ts idx operand (conditions @ [cond]) (results @ [res])
           else
             (case parseKeyword ts idx (js ''ELSE'') of
                (idx, found) \<Rightarrow>
                  if found then
                    bind (parseExpr' ts idx DEFAULT_0) (\<lambda>(idxElse, elseResult).
                    bind (expectKeyword ts idx (js ''END'')) (\<lambda>idx.
                    Return (idx, Case operand (conditions @ [cond]) (results @ [res])
                                   (Some elseResult))))
                  else
                    bind (expectKeyword ts idx (js ''END'')) (\<lambda>idx.
                    Return (idx, Case operand (conditions @ [cond]) (results @ [res]) None))))))"
  using parseCase_loop.simps(2) [of "n - 1"] by simp

lemma referencesLoop_fuel:
  "0 < n \<Longrightarrow> referencesLoop n ts idx onDelete onUpdate =
     (if onDelete = None then
        (case parseKeywords ts idx [js ''ON'', js ''DELETE''] of
           (idx, found) \<Rightarrow>
             if found then
               bind (parseReferencialAction ts idx) (\<lambda>(idx, action).
                 referencesLoop (n - 1) ts idx (Some action) onUpdate)
             else referencesLoop (n - 1) ts idx onDelete onUpdate)
      else if onUpdate = None then
        (case parseKeywords ts idx [js ''ON'', js ''UPDATE''] of
           (idx, found) \<Rightarrow>
             if found then
               bind (parseReferencialAction ts idx) (\<lambda>(idx, action).
                 referencesLoop (n - 1) ts idx onDelete (Some action))
             else referencesLoop (n - 1) ts idx onDelete onUpdate)
      else Return (idx, onDelete, onUpdate))"
  using referencesLoop.simps(2) [of "n - 1"] by simp

lemma parseColumnDef_loop_fuel:
  "0 < n \<Longrightarrow> parseColumnDef_loop n env ts idx colName dataType collation options =
     (case parseKeyword ts idx (js ''CONSTRAINT'') of
        (idx, found) \<Rightarrow>
          if found then
            bind (parseIdentifier ts idx) (\<lambda>(idx, optName).
            bind (parseOptionalColumnOption (n - 1) env ts idx) (\<lambda>(idx, option).
              case option of
                Some opt \<Rightarrow>
                  parseColumnDef_loop (n - 1) env ts idx colName dataType collation
                    (options @ [ColumnOptionDef (Some optName) opt])
              | None \<Rightarrow>
                  Throw (getError (js ''constraint details after CONSTRAINT <name>'')
                           (peekToken ts idx))))
          else
            bind (parseOptionalColumnOption (n - 1) env ts idx) (\<lambda>(idx, option).
              case option of
                Some opt \<Rightarrow>
                  parseColumnDef_loop (n - 1) env ts idx colName dataType collation
                    (options @ [ColumnOptionDef None opt])
              | None \<Rightarrow> Return (idx, ColumnDef colName dataType collation options)))"
  using parseColumnDef_loop.simps(2) [of "n - 1"] by simp

lemma parseColumns_loop_fuel:
  "0 < n \<Longrightarrow> parseColumns_loop n env ts start cols cons =
     bind (parseOptionalTableConstraint (n - 1) env ts start) (\<lambda>(idx, optConstraints).
       if isWordIdent (peekToken ts idx) then
         bind (parseColumnDef (n - 1) env ts idx) (\<lambda>(idx', columnDef).
           case consumeToken ts idx' COMMA of
             Some optIdxComma \<Rightarrow>
               (case consumeToken ts optIdxComma RPAREN of
                  Some optIdxRParen \<Rightarrow>
                    parseColumns_loop (n - 1) env ts start (cols @ [columnDef])
                      (cons @ (case optConstraints of Some c \<Rightarrow> [c] | None \<Rightarrow> []))
                | None \<Rightarrow>
                    Return (optIdxComma, cols @ [columnDef],
                            cons @ (case optConstraints of Some c \<Rightarrow> [c] | None \<Rightarrow> [])))
           | None \<Rightarrow>
               (case consumeToken ts idx' RPAREN of
                  Some optIdxRParen \<Rightarrow>
                    parseColumns_loop (n - 1) env ts start (cols @ [columnDef])
                      (cons @ (case optConstraints of Some c \<Rightarrow> [c] | None \<Rightarrow> []))
                | None \<Rightarrow>
                    Throw (getError ([39, 44, 39] @ js '' or '' @ [39, 41, 39]
                                     @ js '' after column definition'')
                             (peekToken ts idx))))
       else Throw (getError (js ''column name or constraint definition'') (peekToken ts idx)))"
  using parseColumns_loop.simps(2) [of "n - 1"] by simp

lemma parse_loop_fuel:
  "0 < n \<Longrightarrow> parse_loop n env ts idx expectingStatementDelimiter statements =
     (case skipSemicolons ts idx expectingStatementDelimiter of
        (idx, expectingStatementDelimiter) \<Rightarrow>
          if lengthLe ts idx then Return (idx, statements)
          else if expectingStatementDelimiter then Throw (Error [])
          else
            bind (parseCreateStatement (n - 1) env ts idx) (\<lambda>stmt.
              parse_loop (n - 1) env ts idx expectingStatementDelimiter (statements @ [stmt])))"
  using parse_loop.simps(2) [of "n - 1"] by simp

lemma bitLength_numeral:
  "bitLength 0 = 0"
  "bitLength (Suc 0) = 1"
  "bitLength (numeral k) = (if numeral k = (0::nat) then 0 else Suc (bitLength (numeral k div 2)))"
  by (simp_all add: bitLength.simps)

lemma parseInt_rounds:
  "parseInt (js ''10'') = Finite 10
   \<and> parseInt (js ''1.5'') = Finite 1
   \<and> parseInt (js ''9007199254740992'') = Finite 9007199254740992
   \<and> parseInt (js ''9007199254740993'') = Finite 9007199254740992
   \<and> parseInt (js ''9007199254740995'') = Finite 9007199254740996"
  by (simp add: parseInt_def roundToDouble_def bitLength_numeral Let_def)

lemmas parser_eval =
  nextMeaningfulToken_def peekToken_def skipWhitespace_stop skipWhitespace_step Let_def
  inKeywords_def consumeToken_def expectToken_def parseKeyword_def parseKeywords_def
  expectKeyword_def getError_def unsupportedExprssion_def isOneOfKeywords_def toIdent_def
  parseInt_def parseIdentifier_def parseLiteralUint_def parseLength_def
  parseOptionalPrecisionScale_def parseOptionalPrecision_def parseDataType_def
  tryParseDataType_def expectValue_def expectLiteralString_def
  skipToClosingParen_loop.simps skipToClosingParen_def
  parseObjectName_loop.simps parseObjectName_def parseReferencialAction_def
  operatorPrecedence_def getNextPrecedence_def
  parseCommaSeparated_loop_fuel parseCommaSeparated_def
  parseCast_def parseCase_loop_fuel parseCase_def parsePrefix_rest_def parsePrefix_ident_def
  parsePrefix_iife_def parsePrefix_def parseBetween_def parseIn_def parseInfix_def
  parseExpr_loop_fuel parseExpr_fuel parseExpr_0
  parseParenthesizedColumnList_def referencesLoop_fuel parseOptionalColumnOption_def
  parseColumnDef_loop_fuel parseColumnDef_def parseOptionalTableConstraint_def
  parseColumns_loop_fuel parseColumns_def parseCreateTableStatement_def
  parseCreateStatement_def skipSemicolons.simps parse_loop_fuel exampleEnv_def

section \<open>Properties of the token helpers\<close>

lemma skipWhitespace_takeWhile:
  "skipWhitespace ts s = s + length (takeWhile isWhitespace (drop s ts))"
proof (induction ts s rule: skipWhitespace.induct)
  case (1 ts i)
  show ?case
  proof (cases "i < length ts")
    case True
    then have split: "drop i ts = ts ! i # drop (i + 1) ts"
      by (simp add: Cons_nth_drop_Suc)
    show ?thesis
    proof (cases "isWhitespace (ts ! i)")
      case True
      with \<open>i < length ts\<close> 1 split show ?thesis
        by (subst skipWhitespace.simps) simp
    next
      case False
      with split show ?thesis
        by (subst skipWhitespace.simps) simp
    qed
  next
    case False
    then show ?thesis
      by (subst skipWhitespace.simps) simp
  qed
qed

lemma dropWhile_drop_conv:
  "dropWhile pr (drop s ts) = drop (s + length (takeWhile pr (drop s ts))) ts"
  by (simp add: dropWhile_eq_drop add.commute)

lemma nextMeaningfulToken_conv:
  "nextMeaningfulToken ts (Idx s) =
     (case dropWhile isWhitespace (drop s ts) of
        [] \<Rightarrow> (Infinity, EOF)
      | t # rest \<Rightarrow> (Idx (s + length (takeWhile isWhitespace (drop s ts)) + 1), Tok t))"
proof (cases "s + length (takeWhile isWhitespace (drop s ts)) < length ts")
  case True
  then have "dropWhile isWhitespace (drop s ts)
      = ts ! (s + length (takeWhile isWhitespace (drop s ts)))
        # drop (Suc (s + length (takeWhile isWhitespace (drop s ts)))) ts"
    by (simp add: dropWhile_drop_conv Cons_nth_drop_Suc)
  with True show ?thesis
    by (simp add: nextMeaningfulToken_def skipWhitespace_takeWhile Let_def)
next
  case False
  then have "dropWhile isWhitespace (drop s ts) = []"
    by (simp add: dropWhile_drop_conv)
  with False show ?thesis
    by (simp add: nextMeaningfulToken_def skipWhitespace_takeWhile Let_def
          del: dropWhile_eq_Nil_conv)
qed

lemma peekToken_conv:
  "peekToken ts (Idx s) =
     (case dropWhile isWhitespace (drop s ts) of [] \<Rightarrow> EOF | t # rest \<Rightarrow> Tok t)"
proof -
  have "peekToken ts (Idx s) = snd (nextMeaningfulToken ts (Idx s))"
    by (simp add: peekToken_def nextMeaningfulToken_def Let_def)
  then show ?thesis
    by (cases "dropWhile isWhitespace (drop s ts)")
      (simp_all add: nextMeaningfulToken_conv del: dropWhile_eq_Nil_conv)
qed

lemma dropWhile_whitespace_append:
  "list_all isWhitespace ws \<Longrightarrow> dropWhile isWhitespace (ws @ ts) = dropWhile isWhitespace ts"
  by (induction ws) simp_all

lemma skipWhitespace_at_end: "length ts \<le> s \<Longrightarrow> skipWhitespace ts s = s"
  by (subst skipWhitespace.simps) simp

lemma nextMeaningfulToken_at_end: "lengthLe ts idx \<Longrightarrow> nextMeaningfulToken ts idx = (Infinity, EOF)"
  by (cases idx) (simp_all add: nextMeaningfulToken_def skipWhitespace_at_end)

lemma peekToken_at_end: "lengthLe ts idx \<Longrightarrow> peekToken ts idx = EOF"
  by (cases idx) (simp_all add: peekToken_def skipWhitespace_at_end)

lemma consumeToken_at_end: "lengthLe ts idx \<Longrightarrow> consumeToken ts idx t = None"
  by (simp add: consumeToken_def nextMeaningfulToken_at_end)

lemma parseKeyword_at_end: "lengthLe ts idx \<Longrightarrow> parseKeyword ts idx k = (idx, False)"
  by (simp add: parseKeyword_def peekToken_at_end)

lemma parseKeywords_loop_at_end:
  "lengthLe ts idx \<Longrightarrow> parseKeywords_loop ts start idx keywords = (idx, True)"
  by (cases "keywords") simp_all

lemma parseKeywords_loop_append:
  "parseKeywords_loop ts start idx ks1 = (i, True) \<Longrightarrow> lengthLe ts i
   \<Longrightarrow> parseKeywords_loop ts start idx (ks1 @ ks2) = (i, True)"
proof (induction ks1 arbitrary: idx)
  case Nil
  then show ?case
    by (simp add: parseKeywords_loop_at_end)
next
  case (Cons k ks1)
  show ?case
  proof (cases "lengthLe ts idx")
    case True
    with Cons.prems show ?thesis
      by simp
  next
    case False
    obtain idxa found where pk: "parseKeyword ts idx k = (idxa, found)"
      by (cases "parseKeyword ts idx k")
    with Cons.prems False have found
      by (cases found) simp_all
    with Cons.prems False pk have "parseKeywords_loop ts start idxa ks1 = (i, True)"
      by simp
    then have "parseKeywords_loop ts start idxa (ks1 @ ks2) = (i, True)"
      using Cons.prems(2) by (rule Cons.IH)
    with False pk \<open>found\<close> show ?thesis
      by simp
  qed
qed

lemma parseColumns_at_end: "lengthLe ts idx \<Longrightarrow> parseColumns n env ts idx = Return (idx, [], [])"
  by (simp add: parseColumns_def consumeToken_at_end)

section \<open>Properties of the statement loop\<close>

lemma skipSemicolons_fixed:
  "skipSemicolons ts idx e = (i1, e1) \<Longrightarrow> consumeToken ts i1 SEMICOLON = None"
proof (induction ts idx e rule: skipSemicolons.induct)
  case (1 ts idx e)
  show ?case
  proof (cases "consumeToken ts idx SEMICOLON")
    case None
    with "1.prems" show ?thesis
      by (subst (asm) skipSemicolons.simps) simp
  next
    case (Some optIdx)
    with "1.prems" have "skipSemicolons ts optIdx False = (i1, e1)"
      by (subst (asm) skipSemicolons.simps) simp
    with Some show ?thesis
      by (rule "1.IH")
  qed
qed

lemma skipSemicolons_idem:
  assumes "skipSemicolons ts idx e = (i1, e1)"
  shows "skipSemicolons ts i1 e1 = (i1, e1)"
  using skipSemicolons_fixed [OF assms] by (subst skipSemicolons.simps) simp

lemma bind_eq_Return: "bind m f = Return y \<Longrightarrow> \<exists>x. m = Return x \<and> f x = Return y"
  by (cases m) simp_all

lemma parse_loop_Return:
  "parse_loop n env ts idx e stmts = Return (idx', out)
   \<Longrightarrow> out = stmts \<and> idx' = fst (skipSemicolons ts idx e) \<and> lengthLe ts idx'"
proof (induction n arbitrary: idx e stmts)
  case 0
  then show ?case
    by simp
next
  case (Suc n)
  obtain i1 e1 where sk: "skipSemicolons ts idx e = (i1, e1)"
    by (cases "skipSemicolons ts idx e")
  show ?case
  proof (cases "lengthLe ts i1")
    case True
    with Suc.prems sk show ?thesis
      by simp
  next
    case False
    with Suc.prems sk have "\<not> e1"
      by (cases e1) simp_all
    with Suc.prems sk False
    have "bind (parseCreateStatement n env ts i1)
            (\<lambda>stmt. parse_loop n env ts i1 e1 (stmts @ [stmt])) = Return (idx', out)"
      by simp
    then obtain stmt where "parse_loop n env ts i1 e1 (stmts @ [stmt]) = Return (idx', out)"
      by (auto dest: bind_eq_Return)
    then have "idx' = fst (skipSemicolons ts i1 e1)" and "lengthLe ts idx'"
      using Suc.IH by blast+
    with skipSemicolons_idem [OF sk] False show ?thesis
      by simp
  qed
qed

lemma skipSemicolons_run:
  assumes "\<forall>t\<in>set (drop s ts). isWhitespace t \<or> tvalue t = tvalue SEMICOLON"
    and "s \<le> length ts"
    and "s < length ts \<longrightarrow> \<not> isWhitespace (last ts)"
  shows "fst (skipSemicolons ts (Idx s) e) = Idx (length ts)"
  using assms
proof (induction "length ts - s" arbitrary: s e rule: less_induct)
  case less
  show ?case
  proof (cases "s < length ts")
    case False
    with less.prems have "lengthLe ts (Idx s)" and "s = length ts"
      by simp_all
    then show ?thesis
      by (subst skipSemicolons.simps) (simp add: consumeToken_at_end)
  next
    case True
    with less.prems have nws: "\<not> isWhitespace (last ts)" and ne: "drop s ts \<noteq> []"
      by simp_all
    from True have "last (drop s ts) = last ts"
      by simp
    with nws ne have "\<exists>t\<in>set (drop s ts). \<not> isWhitespace t"
      using last_in_set [OF ne] by auto
    then obtain t rest where dw: "dropWhile isWhitespace (drop s ts) = t # rest"
      by (cases "dropWhile isWhitespace (drop s ts)") auto
    let ?k = "length (takeWhile isWhitespace (drop s ts))"
    from dw have tin: "t \<in> set (drop s ts)" and tn: "\<not> isWhitespace t"
      using set_dropWhileD [of t isWhitespace "drop s ts"] hd_dropWhile [of isWhitespace "drop s ts"]
      by auto
    with less.prems have tv: "tvalue t = tvalue SEMICOLON"
      by blast
    have "length (takeWhile isWhitespace (drop s ts)) + length (dropWhile isWhitespace (drop s ts))
          = length (drop s ts)"
      by (simp flip: length_append)
    with dw have bound: "s + ?k + 1 \<le> length ts"
      by simp
    from dw tv have ct: "consumeToken ts (Idx s) SEMICOLON = Some (Idx (s + ?k + 1))"
      by (simp add: consumeToken_def nextMeaningfulToken_conv)
    have sub: "set (drop (s + ?k + 1) ts) \<subseteq> set (drop s ts)"
      by (rule set_drop_subset_set_drop) simp
    have "fst (skipSemicolons ts (Idx (s + ?k + 1)) False) = Idx (length ts)"
    proof (rule less.hyps)
      show "length ts - (s + ?k + 1) < length ts - s"
        using bound by simp
      show "\<forall>t\<in>set (drop (s + ?k + 1) ts). isWhitespace t \<or> tvalue t = tvalue SEMICOLON"
        using less.prems(1) sub by blast
      show "s + ?k + 1 \<le> length ts"
        by (rule bound)
      show "s + ?k + 1 < length ts \<longrightarrow> \<not> isWhitespace (last ts)"
        using nws by simp
    qed
    with ct show ?thesis
      by (subst skipSemicolons.simps) simp
  qed
qed

lemma parse_loop_terminators:
  assumes "\<forall>t\<in>set ts. isWhitespace t \<or> tvalue t = tvalue SEMICOLON"
    and "ts \<noteq> [] \<longrightarrow> \<not> isWhitespace (last ts)"
  shows "parse_loop (Suc n) env ts (Idx 0) False stmts = Return (Idx (length ts), stmts)"
proof -
  from assms have "fst (skipSemicolons ts (Idx 0) False) = Idx (length ts)"
    by (intro skipSemicolons_run) simp_all
  then show ?thesis
    by (cases "skipSemicolons ts (Idx 0) False") simp
qed

lemma referencesLoop_no_progress:
  "parseKeywords ts idx [js ''ON'', js ''DELETE''] = (idx, False)
   \<Longrightarrow> referencesLoop n ts idx None None = Timeout"
  by (induction n) simp_all

lemma referencesLoop_no_progress_update:
  "parseKeywords ts idx [js ''ON'', js ''UPDATE''] = (idx, False)
   \<Longrightarrow> referencesLoop n ts idx (Some a) None = Timeout"
  by (induction n) simp_all

lemma referencesLoop_no_progress_after_delete:
  assumes "parseKeywords ts idx [js ''ON'', js ''DELETE''] = (idxa, True)"
    and "parseReferencialAction ts idxa = Return (idxb, a)"
    and "parseKeywords ts idxb [js ''ON'', js ''UPDATE''] = (idxb, False)"
  shows "referencesLoop n ts idx None None = Timeout"
  using assms by (cases n) (simp_all add: referencesLoop_no_progress_update)

lemma parseOptionalColumnOption_references:
  assumes "parseKeywords ts start [js ''NOT'', js ''NULL''] = (start, False)"
    and "parseKeyword ts start (js ''NULL'') = (start, False)"
    and "parseKeyword ts start (js ''DEFAULT'') = (start, False)"
    and "parseKeywords ts start [js ''PRIMARY'', js ''KEY''] = (start, False)"
    and "parseKeyword ts start (js ''UNIQUE'') = (start, False)"
    and "parseKeyword ts start (js ''REFERENCES'') = (idxa, True)"
    and "parseObjectName ts idxa = Return (idxb, foreignTable)"
    and "parseParenthesizedColumnList n ts idxb True = Return (idxc, referredColumns)"
    and "referencesLoop n ts idxc None None = Timeout"
  shows "parseOptionalColumnOption n env ts start = Timeout"
  using assms by (simp add: parseOptionalColumnOption_def)

lemma parse_loop_no_progress:
  assumes "consumeToken ts idx SEMICOLON = None"
    and "\<not> lengthLe ts idx"
    and "\<And>n. parseCreateStatement n env ts idx = Return stmt"
  shows "parse_loop n env ts idx False stmts = Timeout"
  using assms
proof (induction n arbitrary: stmts)
  case 0
  then show ?case
    by simp
next
  case (Suc n)
  from Suc.prems(1) have "skipSemicolons ts idx False = (idx, False)"
    by (subst skipSemicolons.simps) simp
  with Suc show ?case
    by simp
qed

section \<open>Claims about the tokenizer\<close>

text \<open>
  C7 (the code differs). The claim: for every input on which \<open>tokenize\<close> succeeds, each
  token's literal is as long as the number of source characters it consumed, and the
  literals concatenated give back the source.
  The code indexes the array of code points \<open>Array.from(src)\<close> with \<open>i\<close> and advances by
  \<open>i += token.length\<close>, the number of UTF-16 code units of the literal. On the source
  made of U+1F600 (one code point, two code units) and \<open>a\<close>, the first token is
  \<open>Other\<close> of length 2 for one character consumed, the index jumps over \<open>a\<close>, and the
  literals concatenated are not the source.
\<close>

theorem tokenize_astral_not_lossless:
  "array_from [0xD83D, 0xDE00, 97] = [P 0xD83D 0xDE00, U 97]
   \<and> tokenize [0xD83D, 0xDE00, 97] = Inr [Other [0xD83D, 0xDE00]]
   \<and> tlength (Other [0xD83D, 0xDE00]) = 2
   \<and> concat (map tvalue [Other [0xD83D, 0xDE00]]) \<noteq> [0xD83D, 0xDE00, 97]"
  by (simp add: tokenize_eval)

text \<open>
  C8 (the code differs). The claim: \<open>tokenize\<close> throws exactly for an unterminated
  single-quoted string, an unterminated delimited identifier and an unterminated block
  comment.
  \<open>takeWhileOrError\<close> throws when its index ends at \<open>chars.length\<close> exactly, whether or not
  the literal was closed. So a closed string, delimited identifier or block comment that
  ends the input throws (as does \<open>SELECT 'a'\<close>, at row 1, column 8), and an unclosed one
  whose scan starts or jumps beyond the end of the input is returned as a token.
\<close>

theorem tokenize_throws_on_closed_literal_at_end:
  "tokenize ([39] @ js ''abc'' @ [39])
     = Inl (TokenizeError (js ''Tokenize error'') 1 1 TOKENIZE_SINGLE_QUOTED_STRING_ERROR)
   \<and> tokenize (js ''SELECT '' @ [39] @ js ''a'' @ [39])
     = Inl (TokenizeError (js ''Tokenize error'') 1 8 TOKENIZE_SINGLE_QUOTED_STRING_ERROR)
   \<and> tokenize ([34] @ js ''ab'' @ [34])
     = Inl (TokenizeError (js ''Tokenize error'') 1 1 TOKENIZE_DELIMITED_STRING_ERROR)
   \<and> tokenize (js ''/*a*/'')
     = Inl (TokenizeError (js ''Tokenize error'') 1 1 TOKENIZE_MULTI_LINE_COMMENT_ERROR)
   \<and> tokenize [39] = Inr [SingleQuotedString [39]]
   \<and> tokenize ([39] @ js ''a'' @ [39, 39]) = Inr [SingleQuotedString ([39] @ js ''a'' @ [39, 39])]
   \<and> tokenize [34] = Inr [Word [34]]
   \<and> tokenize (js ''/*a'') = Inr [Cmmnt (js ''/*a'')]"
  by (simp add: tokenize_eval)

text \<open>
  C9 (the code differs). The claim: a single-quoted-string token carries its unescaped
  content apart from its literal text, and a doubled quote inside the string does not end
  it.
  The scan does go over the doubled quote: \<open>'a''b'\<close> followed by a space is one token.
  But the token is \<open>new SingleQuotedString(literal)\<close>, and the class has the literal as
  its only property; \<open>expectValue\<close> of the parser reads \<open>token.content\<close> of it, which is
  \<open>undefined\<close>.
\<close>

theorem single_quoted_string_token_holds_the_literal_only:
  "tokenize ([39] @ js ''a'' @ [39, 39] @ js ''b'' @ [39] @ js '' '')
     = Inr [SingleQuotedString ([39] @ js ''a'' @ [39, 39] @ js ''b'' @ [39]), SPACE]
   \<and> tvalue (SingleQuotedString ([39] @ js ''a'' @ [39, 39] @ js ''b'' @ [39]))
     = [39] @ js ''a'' @ [39, 39] @ js ''b'' @ [39]
   \<and> expectValue exampleEnv
         [SingleQuotedString ([39] @ js ''a'' @ [39, 39] @ js ''b'' @ [39]), SPACE] (Idx 0)
     = Return (Idx 1, Value (VSingleQuotedString None))"
  by (simp add: tokenize_eval parser_eval cong: prod.case_cong_weak bind_cong_weak)

section \<open>Claims about the parser's token helpers\<close>

text \<open>
  C6 (counterexample). The claim: \<open>nextMeaningfulToken\<close> and \<open>peekToken\<close> advance past
  whitespace tokens and comment tokens.
  Their loop tests \<open>tokenSet[i] instanceof tk.Whitespace\<close> only, and \<open>Cmmnt\<close> extends
  \<open>Token\<close>: a comment token is what they return. With a comment between \<open>CREATE\<close> and the
  table name the statement no longer parses.
\<close>

theorem nextMeaningfulToken_returns_comment:
  "nextMeaningfulToken [Cmmnt (js ''--x''), LF, Word (js ''a'')] (Idx 0)
     = (Idx 1, Tok (Cmmnt (js ''--x'')))
   \<and> peekToken [Cmmnt (js ''--x''), LF, Word (js ''a'')] (Idx 0) = Tok (Cmmnt (js ''--x''))
   \<and> tokenize (js ''CREATE /*c*/ t'')
     = Inr [Word (js ''CREATE''), SPACE, Cmmnt (js ''/*c*/''), SPACE, Word (js ''t'')]
   \<and> parseCreateStatement 1 exampleEnv
         [Word (js ''CREATE''), SPACE, Cmmnt (js ''/*c*/''), SPACE, Word (js ''t'')] (Idx 0)
     = Throw (ParseError (js ''Expected: identifier, found: /*c*/''))
   \<and> parseCreateStatement 1 exampleEnv [Word (js ''CREATE''), SPACE, SPACE, Word (js ''t'')] (Idx 0)
     = Return \<lparr>name = ObjectName [Ident (js ''t'') None], columns = [], constraints = [],
                withOptions = [], orReplace = False, ifNotExists = False, withoutRowid = True,
                external = False, fileFormat = None, location = None, query = None\<rparr>"
  by (simp add: tokenize_eval parser_eval cong: prod.case_cong_weak bind_cong_weak)

text \<open>
  C6 (amended). \<open>nextMeaningfulToken\<close> and \<open>peekToken\<close> advance past whitespace tokens
  (\<open>Whitespace\<close> and \<open>NewLine\<close>) only: they return the first token at or after the start
  that is not whitespace, a comment token included, \<open>nextMeaningfulToken\<close> with the index
  after it, or the end-of-input sentinel (with \<open>Infinity\<close>) when there is none. Hence
  whitespace tokens inserted at the start position do not change the token they return.
\<close>

theorem nextMeaningfulToken_skips_whitespace_only:
  "nextMeaningfulToken ts (Idx s) =
     (case dropWhile isWhitespace (drop s ts) of
        [] \<Rightarrow> (Infinity, EOF)
      | t # rest \<Rightarrow> (Idx (s + length (takeWhile isWhitespace (drop s ts)) + 1), Tok t))
   \<and> peekToken ts (Idx s) =
     (case dropWhile isWhitespace (drop s ts) of [] \<Rightarrow> EOF | t # rest \<Rightarrow> Tok t)
   \<and> nextMeaningfulToken ts Infinity = (Infinity, EOF)
   \<and> peekToken ts Infinity = EOF
   \<and> (list_all isWhitespace ws \<longrightarrow>
        snd (nextMeaningfulToken (pre @ ws @ post) (Idx (length pre)))
          = snd (nextMeaningfulToken (pre @ post) (Idx (length pre)))
        \<and> peekToken (pre @ ws @ post) (Idx (length pre)) = peekToken (pre @ post) (Idx (length pre)))"
proof (intro conjI impI)
  show "nextMeaningfulToken ts (Idx s) =
     (case dropWhile isWhitespace (drop s ts) of
        [] \<Rightarrow> (Infinity, EOF)
      | t # rest \<Rightarrow> (Idx (s + length (takeWhile isWhitespace (drop s ts)) + 1), Tok t))"
    by (rule nextMeaningfulToken_conv)
  show "peekToken ts (Idx s) =
     (case dropWhile isWhitespace (drop s ts) of [] \<Rightarrow> EOF | t # rest \<Rightarrow> Tok t)"
    by (rule peekToken_conv)
  show "nextMeaningfulToken ts Infinity = (Infinity, EOF)"
    by (simp add: nextMeaningfulToken_def)
  show "peekToken ts Infinity = EOF"
    by (simp add: peekToken_def)
next
  assume ws: "list_all isWhitespace ws"
  show "snd (nextMeaningfulToken (pre @ ws @ post) (Idx (length pre)))
          = snd (nextMeaningfulToken (pre @ post) (Idx (length pre)))"
    using ws
    by (cases "dropWhile isWhitespace post")
      (simp_all add: nextMeaningfulToken_conv dropWhile_whitespace_append
         del: dropWhile_eq_Nil_conv)
  show "peekToken (pre @ ws @ post) (Idx (length pre)) = peekToken (pre @ post) (Idx (length pre))"
    using ws by (simp add: peekToken_conv dropWhile_whitespace_append)
qed

theorem nextMeaningfulToken_skips_whitespace_only_witness:
  "list_all isWhitespace [SPACE, LF]
   \<and> peekToken ([LPAREN] @ [SPACE, LF] @ [Cmmnt (js ''--x''), Word (js ''a'')]) (Idx (length [LPAREN]))
       = peekToken ([LPAREN] @ [Cmmnt (js ''--x''), Word (js ''a'')]) (Idx (length [LPAREN]))
   \<and> peekToken ([LPAREN] @ [Cmmnt (js ''--x''), Word (js ''a'')]) (Idx (length [LPAREN]))
       = Tok (Cmmnt (js ''--x''))"
proof -
  have ws: "list_all isWhitespace [SPACE, LF]"
    by simp
  have same: "peekToken ([LPAREN] @ [SPACE, LF] @ [Cmmnt (js ''--x''), Word (js ''a'')]) (Idx (length [LPAREN]))
       = peekToken ([LPAREN] @ [Cmmnt (js ''--x''), Word (js ''a'')]) (Idx (length [LPAREN]))"
    using ws nextMeaningfulToken_skips_whitespace_only
      [of "[LPAREN] @ [Cmmnt (js ''--x''), Word (js ''a'')]" 1 "[SPACE, LF]" "[LPAREN]"
          "[Cmmnt (js ''--x''), Word (js ''a'')]"]
    by blast
  have tok: "peekToken ([LPAREN] @ [Cmmnt (js ''--x''), Word (js ''a'')]) (Idx (length [LPAREN]))
       = Tok (Cmmnt (js ''--x''))"
    using nextMeaningfulToken_skips_whitespace_only
      [of "[LPAREN] @ [Cmmnt (js ''--x''), Word (js ''a'')]" 1 "[SPACE, LF]" "[LPAREN]"
          "[Cmmnt (js ''--x''), Word (js ''a'')]"]
    by simp
  from ws same tok show ?thesis
    by blast
qed

text \<open>
  C10 (counterexample). The claim's instance: parsing \<open>CREATE TABLE t\<close>, an input that ends
  right after the table name, sets \<open>withoutRowid = true\<close>.
  No function of the parser consumes the word \<open>TABLE\<close>: \<open>parseObjectName\<close> reads it as the
  table name, \<open>t\<close> is still ahead when \<open>WITHOUT ROWID\<close> is looked for, and
  \<open>withoutRowid\<close> is false.
\<close>

theorem create_table_t_withoutRowid_false:
  "tokenize (js ''CREATE TABLE t'')
     = Inr [Word (js ''CREATE''), SPACE, Word (js ''TABLE''), SPACE, Word (js ''t'')]
   \<and> parseCreateStatement 1 exampleEnv
         [Word (js ''CREATE''), SPACE, Word (js ''TABLE''), SPACE, Word (js ''t'')] (Idx 0)
     = Return \<lparr>name = ObjectName [Ident (js ''TABLE'') None], columns = [], constraints = [],
                withOptions = [], orReplace = False, ifNotExists = False, withoutRowid = False,
                external = False, fileFormat = None, location = None, query = None\<rparr>"
  by (simp add: tokenize_eval parser_eval cong: prod.case_cong_weak bind_cong_weak)

text \<open>
  C10 (amended). For every keyword list, \<open>parseKeywords\<close> returns \<open>found = true\<close> once its
  cursor is at or past the end of the token sequence, whatever is left of the list: at
  once when it starts there, and after a partial match, when the keywords matched so far
  have taken the cursor to the end, whatever keywords follow them in the list. So when
  the table name ends the token sequence, \<open>parseCreateTableStatement\<close> returns a statement
  with \<open>withoutRowid = true\<close> although no \<open>WITHOUT ROWID\<close> is there.
\<close>

theorem parseKeywords_found_at_end_of_tokens:
  "(lengthLe ts start \<longrightarrow> parseKeywords ts start kws = (start, True))
   \<and> (parseKeywords ts start ksa = (i, True) \<and> lengthLe ts i
        \<longrightarrow> parseKeywords ts start (ksa @ ksb) = (i, True))
   \<and> parseKeywords (pre @ [Word k]) (Idx (length pre)) (k # kws)
       = (Idx (length pre + 1), True)
   \<and> (parseKeywords ts start [js ''IF'', js ''NOT'', js ''EXISTS''] = (idxa, ine)
        \<and> parseObjectName ts idxa = Return (idxb, tableName) \<and> lengthLe ts idxb
      \<longrightarrow> parseCreateTableStatement n env ts start orRep
          = Return \<lparr>name = tableName, columns = [], constraints = [], withOptions = [],
                     orReplace = orRep, ifNotExists = ine, withoutRowid = True,
                     external = False, fileFormat = None, location = None, query = None\<rparr>)"
proof (intro conjI impI)
  assume "lengthLe ts start"
  then show "parseKeywords ts start kws = (start, True)"
    by (simp add: parseKeywords_def parseKeywords_loop_at_end)
next
  assume "parseKeywords ts start ksa = (i, True) \<and> lengthLe ts i"
  then show "parseKeywords ts start (ksa @ ksb) = (i, True)"
    by (simp add: parseKeywords_def parseKeywords_loop_append)
next
  have "dropWhile isWhitespace [Word k] = [Word k]"
    by simp
  then have "parseKeyword (pre @ [Word k]) (Idx (length pre)) k = (Idx (length pre + 1), True)"
    by (simp add: parseKeyword_def peekToken_conv nextMeaningfulToken_conv)
  then show "parseKeywords (pre @ [Word k]) (Idx (length pre)) (k # kws)
       = (Idx (length pre + 1), True)"
    by (simp add: parseKeywords_def parseKeywords_loop_at_end)
next
  assume a: "parseKeywords ts start [js ''IF'', js ''NOT'', js ''EXISTS''] = (idxa, ine)
        \<and> parseObjectName ts idxa = Return (idxb, tableName) \<and> lengthLe ts idxb"
  then have "parseKeywords ts idxb [js ''WITHOUT'', js ''ROWID''] = (idxb, True)"
    by (simp add: parseKeywords_def parseKeywords_loop_at_end)
  with a show "parseCreateTableStatement n env ts start orRep
          = Return \<lparr>name = tableName, columns = [], constraints = [], withOptions = [],
                     orReplace = orRep, ifNotExists = ine, withoutRowid = True,
                     external = False, fileFormat = None, location = None, query = None\<rparr>"
    by (simp add: parseCreateTableStatement_def parseColumns_at_end parseKeyword_at_end)
qed

theorem parseKeywords_found_at_end_of_tokens_witness:
  "lengthLe [Word (js ''CREATE''), SPACE, Word (js ''t'')] (Idx 3)
   \<and> parseKeywords [Word (js ''CREATE''), SPACE, Word (js ''t'')] (Idx 3)
        [js ''WITHOUT'', js ''ROWID''] = (Idx 3, True)
   \<and> parseKeywords [Word (js ''IF''), SPACE, Word (js ''NOT'')] (Idx 0) [js ''IF'', js ''NOT'']
        = (Idx 3, True)
   \<and> lengthLe [Word (js ''IF''), SPACE, Word (js ''NOT'')] (Idx 3)
   \<and> parseKeywords [Word (js ''IF''), SPACE, Word (js ''NOT'')] (Idx 0)
        ([js ''IF'', js ''NOT''] @ [js ''EXISTS'']) = (Idx 3, True)
   \<and> parseKeywords [Word (js ''CREATE''), SPACE, Word (js ''t'')] (Idx 1)
        [js ''IF'', js ''NOT'', js ''EXISTS''] = (Idx 1, False)
   \<and> parseObjectName [Word (js ''CREATE''), SPACE, Word (js ''t'')] (Idx 1)
        = Return (Idx 3, ObjectName [Ident (js ''t'') None])
   \<and> parseCreateTableStatement 1 exampleEnv [Word (js ''CREATE''), SPACE, Word (js ''t'')] (Idx 1) False
        = Return \<lparr>name = ObjectName [Ident (js ''t'') None], columns = [], constraints = [],
                   withOptions = [], orReplace = False, ifNotExists = False, withoutRowid = True,
                   external = False, fileFormat = None, location = None, query = None\<rparr>"
proof -
  let ?ts = "[Word (js ''CREATE''), SPACE, Word (js ''t'')]"
  let ?us = "[Word (js ''IF''), SPACE, Word (js ''NOT'')]"
  have h1: "lengthLe ?ts (Idx 3)"
    by simp
  have h2: "parseKeywords ?ts (Idx 1) [js ''IF'', js ''NOT'', js ''EXISTS''] = (Idx 1, False)"
    by (simp add: parser_eval cong: prod.case_cong_weak bind_cong_weak)
  have h3: "parseObjectName ?ts (Idx 1) = Return (Idx 3, ObjectName [Ident (js ''t'') None])"
    by (simp add: parser_eval cong: prod.case_cong_weak bind_cong_weak)
  have h4: "parseKeywords ?us (Idx 0) [js ''IF'', js ''NOT''] = (Idx 3, True)"
    by (simp add: parser_eval cong: prod.case_cong_weak bind_cong_weak)
  have h5: "lengthLe ?us (Idx 3)"
    by simp
  have c1: "parseKeywords ?ts (Idx 3) [js ''WITHOUT'', js ''ROWID''] = (Idx 3, True)"
    using h1 parseKeywords_found_at_end_of_tokens
      [where ts = ?ts and start = "Idx 3" and kws = "[js ''WITHOUT'', js ''ROWID'']"]
    by blast
  have c2: "parseKeywords ?us (Idx 0) ([js ''IF'', js ''NOT''] @ [js ''EXISTS'']) = (Idx 3, True)"
    using h4 h5 parseKeywords_found_at_end_of_tokens
      [where ts = ?us and start = "Idx 0" and ksa = "[js ''IF'', js ''NOT'']"
         and ksb = "[js ''EXISTS'']" and i = "Idx 3"]
    by blast
  have c3: "parseCreateTableStatement 1 exampleEnv ?ts (Idx 1) False
        = Return \<lparr>name = ObjectName [Ident (js ''t'') None], columns = [], constraints = [],
                   withOptions = [], orReplace = False, ifNotExists = False, withoutRowid = True,
                   external = False, fileFormat = None, location = None, query = None\<rparr>"
    using h1 h2 h3 parseKeywords_found_at_end_of_tokens
      [where ts = ?ts and start = "Idx 1" and idxa = "Idx 1" and ine = False and idxb = "Idx 3"
         and tableName = "ObjectName [Ident (js ''t'') None]" and n = 1 and env = exampleEnv
         and orRep = False]
    by blast
  from h1 h2 h3 h4 h5 c1 c2 c3 show ?thesis
    by blast
qed

section \<open>Claims about the statement loop\<close>

text \<open>
  C1 (the code differs). The claim: for every source \<open>parse\<close> returns the statements in
  source order, one per statement; it returns a non-empty list or throws.
  \<open>parse\<close> has no \<open>return\<close> statement, and it calls \<open>parseCreateStatement(tokenSet, idx)\<close>
  without ever assigning \<open>idx\<close> after it. On \<open>CREATE TABLE a;CREATE TABLE b;\<close> the first
  statement parses, and the loop parses it again for ever: \<open>parse\<close> neither returns nor
  throws. For every input, when the loop is left the list \<open>statements\<close> is as it was at
  the start, that is empty, and the cursor is at the end of the tokens: the loop is never
  left after a statement has parsed. On \<open>;\<close>, a source without a statement, it is left,
  and what \<open>parse\<close> returns is \<open>undefined\<close>.
\<close>

theorem parse_returns_no_statement:
  "tokenize (js ''CREATE TABLE a;CREATE TABLE b;'')
     = Inr [Word (js ''CREATE''), SPACE, Word (js ''TABLE''), SPACE, Word (js ''a''),
           SEMICOLON, Word (js ''CREATE''), SPACE, Word (js ''TABLE''), SPACE,
           Word (js ''b''), SEMICOLON]
   \<and> parseCreateStatement n env
         [Word (js ''CREATE''), SPACE, Word (js ''TABLE''), SPACE, Word (js ''a''),
          SEMICOLON, Word (js ''CREATE''), SPACE, Word (js ''TABLE''), SPACE,
          Word (js ''b''), SEMICOLON]
         (Idx 0)
     = Return \<lparr>name = ObjectName [Ident (js ''TABLE'') None], columns = [], constraints = [],
                withOptions = [], orReplace = False, ifNotExists = False, withoutRowid = False,
                external = False, fileFormat = None, location = None, query = None\<rparr>
   \<and> parse n env (js ''CREATE TABLE a;CREATE TABLE b;'') = Timeout
   \<and> parse (Suc n) env (js '';'') = Return ()
   \<and> (parse_loop n env ts idx e stmts = Return (idx', out) \<longrightarrow> out = stmts \<and> lengthLe ts idx')"
proof (intro conjI impI)
  let ?ts = "[Word (js ''CREATE''), SPACE, Word (js ''TABLE''), SPACE, Word (js ''a''),
              SEMICOLON, Word (js ''CREATE''), SPACE, Word (js ''TABLE''), SPACE,
              Word (js ''b''), SEMICOLON]"
  show tok: "tokenize (js ''CREATE TABLE a;CREATE TABLE b;'') = Inr ?ts"
    by (simp add: tokenize_eval)
  show stmt: "parseCreateStatement n env ?ts (Idx 0)
     = Return \<lparr>name = ObjectName [Ident (js ''TABLE'') None], columns = [], constraints = [],
                withOptions = [], orReplace = False, ifNotExists = False, withoutRowid = False,
                external = False, fileFormat = None, location = None, query = None\<rparr>"
    for n
    by (simp add: parser_eval cong: prod.case_cong_weak bind_cong_weak)
  have "parse_loop n env ?ts (Idx 0) False [] = Timeout"
  proof (rule parse_loop_no_progress)
    show "consumeToken ?ts (Idx 0) SEMICOLON = None"
      by (simp add: parser_eval)
    show "\<not> lengthLe ?ts (Idx 0)"
      by simp
    show "parseCreateStatement n env ?ts (Idx 0)
     = Return \<lparr>name = ObjectName [Ident (js ''TABLE'') None], columns = [], constraints = [],
                withOptions = [], orReplace = False, ifNotExists = False, withoutRowid = False,
                external = False, fileFormat = None, location = None, query = None\<rparr>"
      for n
      by (rule stmt)
  qed
  with tok show "parse n env (js ''CREATE TABLE a;CREATE TABLE b;'') = Timeout"
    by (simp add: parse_def)
  have "tokenize (js '';'') = Inr [SEMICOLON]"
    by (simp add: tokenize_eval)
  moreover have "parse_loop (Suc n) env [SEMICOLON] (Idx 0) False [] = Return (Idx (length [SEMICOLON]), [])"
    by (rule parse_loop_terminators) simp_all
  ultimately show "parse (Suc n) env (js '';'') = Return ()"
    by (simp add: parse_def)
next
  assume r: "parse_loop n env ts idx e stmts = Return (idx', out)"
  then show "out = stmts"
    by (simp add: parse_loop_Return)
  from r show "lengthLe ts idx'"
    by (simp add: parse_loop_Return)
qed

theorem parse_returns_no_statement_witness:
  "parse_loop 1 exampleEnv [SEMICOLON, SPACE, SEMICOLON] (Idx 0) False [] = Return (Idx 3, [])
   \<and> lengthLe [SEMICOLON, SPACE, SEMICOLON] (Idx 3)"
proof -
  have h: "parse_loop 1 exampleEnv [SEMICOLON, SPACE, SEMICOLON] (Idx 0) False [] = Return (Idx 3, [])"
    by (simp add: parser_eval cong: prod.case_cong_weak bind_cong_weak)
  have "lengthLe [SEMICOLON, SPACE, SEMICOLON] (Idx 3)"
    using h parse_returns_no_statement
      [where n = 1 and env = exampleEnv and ts = "[SEMICOLON, SPACE, SEMICOLON]" and idx = "Idx 0"
         and e = False and stmts = "[]" and idx' = "Idx 3" and out = "[]"]
    by blast
  with h show ?thesis
    by blast
qed

text \<open>
  C2 (the code differs). The claim: the top-level statement loop of \<open>parse\<close> and the
  \<open>ON DELETE\<close> / \<open>ON UPDATE\<close> loop of \<open>REFERENCES\<close> always terminate, the latter accepting
  the two clauses in either order.
  \<open>parse\<close> calls \<open>parseCreateStatement(tokenSet, idx)\<close> and never assigns \<open>idx\<close> after it:
  once a statement has been parsed the loop parses it again, for ever. The \<open>REFERENCES\<close>
  loop has \<open>break\<close> in its last branch only, reached when both actions are set, and it
  looks for \<open>ON UPDATE\<close> only after \<open>ON DELETE\<close> was found: followed by a comma, or with
  \<open>ON UPDATE\<close> first, it makes no progress. In the model every turn of these loops takes
  one unit of fuel, and no amount of fuel is enough.
\<close>

theorem parse_and_references_loops_do_not_terminate:
  "tokenize (js ''CREATE TABLE t'')
     = Inr [Word (js ''CREATE''), SPACE, Word (js ''TABLE''), SPACE, Word (js ''t'')]
   \<and> parse n env (js ''CREATE TABLE t'') = Timeout
   \<and> tokenize (js ''REFERENCES t,'') = Inr [Word (js ''REFERENCES''), SPACE, Word (js ''t''), COMMA]
   \<and> parseOptionalColumnOption n env [Word (js ''REFERENCES''), SPACE, Word (js ''t''), COMMA] (Idx 0)
     = Timeout
   \<and> parseOptionalColumnOption n env
         [Word (js ''REFERENCES''), SPACE, Word (js ''t''), SPACE, Word (js ''ON''), SPACE,
          Word (js ''DELETE''), SPACE, Word (js ''CASCADE''), COMMA] (Idx 0)
     = Timeout
   \<and> parseOptionalColumnOption n env
         [Word (js ''REFERENCES''), SPACE, Word (js ''t''), SPACE, Word (js ''ON''), SPACE,
          Word (js ''UPDATE''), SPACE, Word (js ''CASCADE''), SPACE, Word (js ''ON''), SPACE,
          Word (js ''DELETE''), SPACE, Word (js ''CASCADE'')] (Idx 0)
     = Timeout"
proof (intro conjI)
  let ?ts = "[Word (js ''CREATE''), SPACE, Word (js ''TABLE''), SPACE, Word (js ''t'')]"
  show tok: "tokenize (js ''CREATE TABLE t'') = Inr ?ts"
    by (simp add: tokenize_eval)
  have "parse_loop n env ?ts (Idx 0) False [] = Timeout"
  proof (rule parse_loop_no_progress)
    show "consumeToken ?ts (Idx 0) SEMICOLON = None"
      by (simp add: parser_eval)
    show "\<not> lengthLe ?ts (Idx 0)"
      by simp
    show "\<And>n. parseCreateStatement n env ?ts (Idx 0)
        = Return \<lparr>name = ObjectName [Ident (js ''TABLE'') None], columns = [], constraints = [],
                   withOptions = [], orReplace = False, ifNotExists = False, withoutRowid = False,
                   external = False, fileFormat = None, location = None, query = None\<rparr>"
      by (simp add: parser_eval cong: prod.case_cong_weak bind_cong_weak)
  qed
  with tok show "parse n env (js ''CREATE TABLE t'') = Timeout"
    by (simp add: parse_def)
next
  show "tokenize (js ''REFERENCES t,'') = Inr [Word (js ''REFERENCES''), SPACE, Word (js ''t''), COMMA]"
    by (simp add: tokenize_eval)
next
  let ?ts = "[Word (js ''REFERENCES''), SPACE, Word (js ''t''), COMMA]"
  have "parseKeywords ?ts (Idx 3) [js ''ON'', js ''DELETE''] = (Idx 3, False)"
    by (simp add: parser_eval cong: prod.case_cong_weak bind_cong_weak)
  then have "referencesLoop n ?ts (Idx 3) None None = Timeout"
    by (rule referencesLoop_no_progress)
  then show "parseOptionalColumnOption n env ?ts (Idx 0) = Timeout"
    by (rule parseOptionalColumnOption_references
          [where idxa = "Idx 1" and idxb = "Idx 3" and idxc = "Idx 3"
             and foreignTable = "ObjectName [Ident (js ''t'') None]" and referredColumns = "[]",
           rotated -1])
      (simp_all add: parser_eval cong: prod.case_cong_weak bind_cong_weak)
next
  let ?ts = "[Word (js ''REFERENCES''), SPACE, Word (js ''t''), SPACE, Word (js ''ON''), SPACE,
          Word (js ''DELETE''), SPACE, Word (js ''CASCADE''), COMMA]"
  have "referencesLoop n ?ts (Idx 3) None None = Timeout"
  proof (rule referencesLoop_no_progress_after_delete)
    show "parseKeywords ?ts (Idx 3) [js ''ON'', js ''DELETE''] = (Idx 7, True)"
      by (simp add: parser_eval cong: prod.case_cong_weak bind_cong_weak)
    show "parseReferencialAction ?ts (Idx 7) = Return (Idx 9, ReferencialAction (js ''CASCADE''))"
      by (simp add: parser_eval cong: prod.case_cong_weak bind_cong_weak)
    show "parseKeywords ?ts (Idx 9) [js ''ON'', js ''UPDATE''] = (Idx 9, False)"
      by (simp add: parser_eval cong: prod.case_cong_weak bind_cong_weak)
  qed
  then show "parseOptionalColumnOption n env ?ts (Idx 0) = Timeout"
    by (rule parseOptionalColumnOption_references
          [where idxa = "Idx 1" and idxb = "Idx 3" and idxc = "Idx 3"
             and foreignTable = "ObjectName [Ident (js ''t'') None]" and referredColumns = "[]",
           rotated -1])
      (simp_all add: parser_eval cong: prod.case_cong_weak bind_cong_weak)
next
  let ?ts = "[Word (js ''REFERENCES''), SPACE, Word (js ''t''), SPACE, Word (js ''ON''), SPACE,
          Word (js ''UPDATE''), SPACE, Word (js ''CASCADE''), SPACE, Word (js ''ON''), SPACE,
          Word (js ''DELETE''), SPACE, Word (js ''CASCADE'')]"
  have "parseKeywords ?ts (Idx 3) [js ''ON'', js ''DELETE''] = (Idx 3, False)"
    by (simp add: parser_eval cong: prod.case_cong_weak bind_cong_weak)
  then have "referencesLoop n ?ts (Idx 3) None None = Timeout"
    by (rule referencesLoop_no_progress)
  then show "parseOptionalColumnOption n env ?ts (Idx 0) = Timeout"
    by (rule parseOptionalColumnOption_references
          [where idxa = "Idx 1" and idxb = "Idx 3" and idxc = "Idx 3"
             and foreignTable = "ObjectName [Ident (js ''t'') None]" and referredColumns = "[]",
           rotated -1])
      (simp_all add: parser_eval cong: prod.case_cong_weak bind_cong_weak)
qed

section \<open>Claims about statements, columns and expressions\<close>

text \<open>
  C3 (the code differs). The claim: parsing
  \<open>CREATE TABLE t (id INT PRIMARY KEY, name VARCHAR(10) NOT NULL DEFAULT 'x')\<close> yields one
  statement with two columns, the first with the option \<open>Unique(isPrimary = true)\<close>, the
  second of type \<open>VARCHAR(10)\<close> with the options \<open>NOT NULL\<close> and \<open>DEFAULT 'x'\<close>.
  No function of the parser reads the word \<open>TABLE\<close>: \<open>parseCreateStatement\<close> takes it for
  the table name, finds \<open>t\<close> where a column list may open, and returns a statement with no
  column. \<open>parse\<close> then parses the same statement again for ever and returns nothing.
  And \<open>parseColumns\<close>, started where the column list opens, passes \<open>start\<close> (the index
  before the parenthesis) on to \<open>parseOptionalTableConstraint\<close>, meets the parenthesis
  where it wants a column name, and throws.
\<close>

theorem create_table_example_has_no_columns:
  "tokenize (js ''CREATE TABLE t (id INT PRIMARY KEY, name VARCHAR(10) NOT NULL DEFAULT ''
               @ [39] @ js ''x'' @ [39] @ js '')'')
     = Inr [Word (js ''CREATE''), SPACE, Word (js ''TABLE''), SPACE, Word (js ''t''), SPACE, LPAREN,
          Word (js ''id''), SPACE, Word (js ''INT''), SPACE, Word (js ''PRIMARY''), SPACE,
          Word (js ''KEY''), COMMA, SPACE, Word (js ''name''), SPACE, Word (js ''VARCHAR''),
          LPAREN, Num (js ''10''), RPAREN, SPACE, Word (js ''NOT''), SPACE, Word (js ''NULL''),
          SPACE, Word (js ''DEFAULT''), SPACE, SingleQuotedString ([39] @ js ''x'' @ [39]), RPAREN]
   \<and> parseCreateStatement n env
         [Word (js ''CREATE''), SPACE, Word (js ''TABLE''), SPACE, Word (js ''t''), SPACE, LPAREN,
          Word (js ''id''), SPACE, Word (js ''INT''), SPACE, Word (js ''PRIMARY''), SPACE,
          Word (js ''KEY''), COMMA, SPACE, Word (js ''name''), SPACE, Word (js ''VARCHAR''),
          LPAREN, Num (js ''10''), RPAREN, SPACE, Word (js ''NOT''), SPACE, Word (js ''NULL''),
          SPACE, Word (js ''DEFAULT''), SPACE, SingleQuotedString ([39] @ js ''x'' @ [39]), RPAREN]
         (Idx 0)
     = Return \<lparr>name = ObjectName [Ident (js ''TABLE'') None], columns = [], constraints = [],
                withOptions = [], orReplace = False, ifNotExists = False, withoutRowid = False,
                external = False, fileFormat = None, location = None, query = None\<rparr>
   \<and> parse n env (js ''CREATE TABLE t (id INT PRIMARY KEY, name VARCHAR(10) NOT NULL DEFAULT ''
               @ [39] @ js ''x'' @ [39] @ js '')'')
     = Timeout
   \<and> parseColumns (Suc n) env
         [Word (js ''CREATE''), SPACE, Word (js ''TABLE''), SPACE, Word (js ''t''), SPACE, LPAREN,
          Word (js ''id''), SPACE, Word (js ''INT''), SPACE, Word (js ''PRIMARY''), SPACE,
          Word (js ''KEY''), COMMA, SPACE, Word (js ''name''), SPACE, Word (js ''VARCHAR''),
          LPAREN, Num (js ''10''), RPAREN, SPACE, Word (js ''NOT''), SPACE, Word (js ''NULL''),
          SPACE, Word (js ''DEFAULT''), SPACE, SingleQuotedString ([39] @ js ''x'' @ [39]), RPAREN]
         (Idx 5)
     = Throw (ParseError (js ''Expected: column name or constraint definition, found: (''))"
proof (intro conjI)
  let ?ts = "[Word (js ''CREATE''), SPACE, Word (js ''TABLE''), SPACE, Word (js ''t''), SPACE, LPAREN,
          Word (js ''id''), SPACE, Word (js ''INT''), SPACE, Word (js ''PRIMARY''), SPACE,
          Word (js ''KEY''), COMMA, SPACE, Word (js ''name''), SPACE, Word (js ''VARCHAR''),
          LPAREN, Num (js ''10''), RPAREN, SPACE, Word (js ''NOT''), SPACE, Word (js ''NULL''),
          SPACE, Word (js ''DEFAULT''), SPACE, SingleQuotedString ([39] @ js ''x'' @ [39]), RPAREN]"
  show tok: "tokenize (js ''CREATE TABLE t (id INT PRIMARY KEY, name VARCHAR(10) NOT NULL DEFAULT ''
               @ [39] @ js ''x'' @ [39] @ js '')'')
     = Inr ?ts"
    by (simp add: tokenize_eval)
  show stmt: "parseCreateStatement n env ?ts (Idx 0)
     = Return \<lparr>name = ObjectName [Ident (js ''TABLE'') None], columns = [], constraints = [],
                withOptions = [], orReplace = False, ifNotExists = False, withoutRowid = False,
                external = False, fileFormat = None, location = None, query = None\<rparr>"
    for n
    by (simp add: parser_eval cong: prod.case_cong_weak bind_cong_weak)
  have "parse_loop n env ?ts (Idx 0) False [] = Timeout"
  proof (rule parse_loop_no_progress)
    show "consumeToken ?ts (Idx 0) SEMICOLON = None"
      by (simp add: parser_eval)
    show "\<not> lengthLe ?ts (Idx 0)"
      by simp
    show "parseCreateStatement n env ?ts (Idx 0)
     = Return \<lparr>name = ObjectName [Ident (js ''TABLE'') None], columns = [], constraints = [],
                withOptions = [], orReplace = False, ifNotExists = False, withoutRowid = False,
                external = False, fileFormat = None, location = None, query = None\<rparr>"
      for n
      by (rule stmt)
  qed
  with tok show "parse n env (js ''CREATE TABLE t (id INT PRIMARY KEY, name VARCHAR(10) NOT NULL DEFAULT ''
               @ [39] @ js ''x'' @ [39] @ js '')'')
     = Timeout"
    by (simp add: parse_def)
  show "parseColumns (Suc n) env ?ts (Idx 5)
     = Throw (ParseError (js ''Expected: column name or constraint definition, found: (''))"
    by (simp add: parser_eval parseColumns_loop.simps cong: prod.case_cong_weak bind_cong_weak)
qed

text \<open>
  C4 (the code differs). The claim: the right-hand side of an infix operator is parsed with
  that operator's precedence as the new threshold, so that \<open>a OR b AND c\<close> is
  \<open>a OR (b AND c)\<close>, \<open>a + b * c\<close> is \<open>a + (b * c)\<close>, and \<open>::\<close> binds tighter than \<open>+\<close> in
  \<open>a::int + 1\<close>.
  \<open>parseInfix\<close> is given the precedence but parses the right-hand side of a binary
  operator by \<open>parseExpr(tokenSet, idx)\<close>, with the default threshold 0 (its \<open>NOT LIKE\<close>
  branch does pass \<open>precedence\<close>): the right-hand side takes all that follows, whatever
  the operators, and \<open>1 * 2 + 3\<close> is \<open>1 * (2 + 3)\<close>, \<open>1 AND 2 OR 3\<close> is \<open>1 AND (2 OR 3)\<close>.
  The three expressions of the claim do not parse: in \<open>parsePrefix\<close> the \<open>return\<close> of an
  identifier is inside the test for a following parenthesis or period, so an identifier
  followed by an operator falls through to the tests on the token after it, and throws.
\<close>

theorem infix_right_hand_side_ignores_precedence:
  "tokenize (js ''1 * 2 + 3'')
     = Inr [Num (js ''1''), SPACE, MULT, SPACE, Num (js ''2''), SPACE, PLUS, SPACE,
           Num (js ''3'')]
   \<and> parseExpr (n + 30) env
         [Num (js ''1''), SPACE, MULT, SPACE, Num (js ''2''), SPACE, PLUS, SPACE,
          Num (js ''3'')] (Idx 0) 0
     = Return (Idx 9, BinaryOp (Value (VNumber (js ''1''))) (BinaryOperator (js ''*''))
             (BinaryOp (Value (VNumber (js ''2''))) (BinaryOperator (js ''+''))
             (Value (VNumber (js ''3'')))))
   \<and> tokenize (js ''1 AND 2 OR 3'')
     = Inr [Num (js ''1''), SPACE, Word (js ''AND''), SPACE, Num (js ''2''), SPACE,
           Word (js ''OR''), SPACE, Num (js ''3'')]
   \<and> parseExpr (n + 30) exampleEnv
         [Num (js ''1''), SPACE, Word (js ''AND''), SPACE, Num (js ''2''), SPACE,
          Word (js ''OR''), SPACE, Num (js ''3'')] (Idx 0) 0
     = Return (Idx 9, BinaryOp (Value (VNumber (js ''1''))) (BinaryOperator (js ''AND''))
             (BinaryOp (Value (VNumber (js ''2''))) (BinaryOperator (js ''OR''))
             (Value (VNumber (js ''3'')))))
   \<and> tokenize (js ''a OR b AND c'')
     = Inr [Word (js ''a''), SPACE, Word (js ''OR''), SPACE, Word (js ''b''), SPACE,
           Word (js ''AND''), SPACE, Word (js ''c'')]
   \<and> parseExpr (n + 30) exampleEnv
         [Word (js ''a''), SPACE, Word (js ''OR''), SPACE, Word (js ''b''), SPACE,
          Word (js ''AND''), SPACE, Word (js ''c'')] (Idx 0) 0
     = Throw (ParseError (js ''Expected: an expression, found: OR''))
   \<and> tokenize (js ''a + b * c'')
     = Inr [Word (js ''a''), SPACE, PLUS, SPACE, Word (js ''b''), SPACE, MULT, SPACE,
           Word (js ''c'')]
   \<and> parseExpr (n + 30) exampleEnv
         [Word (js ''a''), SPACE, PLUS, SPACE, Word (js ''b''), SPACE, MULT, SPACE,
          Word (js ''c'')] (Idx 0) 0
     = Throw (ParseError (js ''Expected: an expression, found: EOF''))
   \<and> tokenize (js ''a::int + 1'')
     = Inr [Word (js ''a''), DOUBLE_COLON, Word (js ''int''), SPACE, PLUS, SPACE,
           Num (js ''1'')]
   \<and> parseExpr (n + 30) exampleEnv
         [Word (js ''a''), DOUBLE_COLON, Word (js ''int''), SPACE, PLUS, SPACE,
          Num (js ''1'')] (Idx 0) 0
     = Throw (ParseError (js ''Expected: an expression, found: ::''))"
proof (intro conjI)
  show "tokenize (js ''1 * 2 + 3'')
     = Inr [Num (js ''1''), SPACE, MULT, SPACE, Num (js ''2''), SPACE, PLUS, SPACE,
           Num (js ''3'')]"
    by (simp add: tokenize_eval)
  show "parseExpr (n + 30) env
         [Num (js ''1''), SPACE, MULT, SPACE, Num (js ''2''), SPACE, PLUS, SPACE,
          Num (js ''3'')] (Idx 0) 0
     = Return (Idx 9, BinaryOp (Value (VNumber (js ''1''))) (BinaryOperator (js ''*''))
             (BinaryOp (Value (VNumber (js ''2''))) (BinaryOperator (js ''+''))
             (Value (VNumber (js ''3'')))))"
    by (simp add: parser_eval cong: prod.case_cong_weak bind_cong_weak)
  show "tokenize (js ''1 AND 2 OR 3'')
     = Inr [Num (js ''1''), SPACE, Word (js ''AND''), SPACE, Num (js ''2''), SPACE,
           Word (js ''OR''), SPACE, Num (js ''3'')]"
    by (simp add: tokenize_eval)
  show "parseExpr (n + 30) exampleEnv
         [Num (js ''1''), SPACE, Word (js ''AND''), SPACE, Num (js ''2''), SPACE,
          Word (js ''OR''), SPACE, Num (js ''3'')] (Idx 0) 0
     = Return (Idx 9, BinaryOp (Value (VNumber (js ''1''))) (BinaryOperator (js ''AND''))
             (BinaryOp (Value (VNumber (js ''2''))) (BinaryOperator (js ''OR''))
             (Value (VNumber (js ''3'')))))"
    by (simp add: parser_eval cong: prod.case_cong_weak bind_cong_weak)
  show "tokenize (js ''a OR b AND c'')
     = Inr [Word (js ''a''), SPACE, Word (js ''OR''), SPACE, Word (js ''b''), SPACE,
           Word (js ''AND''), SPACE, Word (js ''c'')]"
    by (simp add: tokenize_eval)
  show "parseExpr (n + 30) exampleEnv
         [Word (js ''a''), SPACE, Word (js ''OR''), SPACE, Word (js ''b''), SPACE,
          Word (js ''AND''), SPACE, Word (js ''c'')] (Idx 0) 0
     = Throw (ParseError (js ''Expected: an expression, found: OR''))"
    by (simp add: parser_eval cong: prod.case_cong_weak bind_cong_weak)
  show "tokenize (js ''a + b * c'')
     = Inr [Word (js ''a''), SPACE, PLUS, SPACE, Word (js ''b''), SPACE, MULT, SPACE,
           Word (js ''c'')]"
    by (simp add: tokenize_eval)
  show "parseExpr (n + 30) exampleEnv
         [Word (js ''a''), SPACE, PLUS, SPACE, Word (js ''b''), SPACE, MULT, SPACE,
          Word (js ''c'')] (Idx 0) 0
     = Throw (ParseError (js ''Expected: an expression, found: EOF''))"
    by (simp add: parser_eval cong: prod.case_cong_weak bind_cong_weak)
  show "tokenize (js ''a::int + 1'')
     = Inr [Word (js ''a''), DOUBLE_COLON, Word (js ''int''), SPACE, PLUS, SPACE,
           Num (js ''1'')]"
    by (simp add: tokenize_eval)
  show "parseExpr (n + 30) exampleEnv
         [Word (js ''a''), DOUBLE_COLON, Word (js ''int''), SPACE, PLUS, SPACE,
          Num (js ''1'')] (Idx 0) 0
     = Throw (ParseError (js ''Expected: an expression, found: ::''))"
    by (simp add: parser_eval cong: prod.case_cong_weak bind_cong_weak)
qed

text \<open>
  C5 (the code differs). The claim: \<open>x BETWEEN 1 AND 10\<close> and \<open>x NOT BETWEEN 1 AND 10\<close>, as in
  a \<open>CHECK\<close> clause, parse into a \<open>Between\<close> node with \<open>negated\<close> false and true, and with
  \<open>low = 1\<close> and \<open>high = 10\<close>.
  Neither parses: the identifier \<open>x\<close> followed by a keyword throws in \<open>parsePrefix\<close>. With
  a number on the left, \<open>1 NOT BETWEEN 1 AND 10\<close> gives the node, negated; but for
  \<open>1 BETWEEN 1 AND 10\<close> \<open>parseInfix\<close> has taken \<open>BETWEEN\<close> as its token and then looks for
  the keyword \<open>BETWEEN\<close> again, after it: it finds \<open>1\<close> and throws.
\<close>

theorem between_without_not_does_not_parse:
  "tokenize (js ''x BETWEEN 1 AND 10'')
     = Inr [Word (js ''x''), SPACE, Word (js ''BETWEEN''), SPACE, Num (js ''1''), SPACE,
           Word (js ''AND''), SPACE, Num (js ''10'')]
   \<and> parseExpr (n + 30) exampleEnv
         [Word (js ''x''), SPACE, Word (js ''BETWEEN''), SPACE, Num (js ''1''), SPACE,
          Word (js ''AND''), SPACE, Num (js ''10'')] (Idx 0) 0
     = Throw (ParseError (js ''Expected: an expression, found: BETWEEN''))
   \<and> tokenize (js ''x NOT BETWEEN 1 AND 10'')
     = Inr [Word (js ''x''), SPACE, Word (js ''NOT''), SPACE, Word (js ''BETWEEN''), SPACE,
           Num (js ''1''), SPACE, Word (js ''AND''), SPACE, Num (js ''10'')]
   \<and> parseExpr (n + 30) exampleEnv
         [Word (js ''x''), SPACE, Word (js ''NOT''), SPACE, Word (js ''BETWEEN''), SPACE,
          Num (js ''1''), SPACE, Word (js ''AND''), SPACE, Num (js ''10'')] (Idx 0) 0
     = Throw (ParseError (js ''Expected: an expression, found: NOT''))
   \<and> tokenize (js ''1 BETWEEN 1 AND 10'')
     = Inr [Num (js ''1''), SPACE, Word (js ''BETWEEN''), SPACE, Num (js ''1''), SPACE,
           Word (js ''AND''), SPACE, Num (js ''10'')]
   \<and> parseExpr (n + 30) exampleEnv
         [Num (js ''1''), SPACE, Word (js ''BETWEEN''), SPACE, Num (js ''1''), SPACE,
          Word (js ''AND''), SPACE, Num (js ''10'')] (Idx 0) 0
     = Throw (ParseError (js ''Expected: IN or BETWEEN after NOT, found: 1''))
   \<and> tokenize (js ''1 NOT BETWEEN 1 AND 10'')
     = Inr [Num (js ''1''), SPACE, Word (js ''NOT''), SPACE, Word (js ''BETWEEN''), SPACE,
           Num (js ''1''), SPACE, Word (js ''AND''), SPACE, Num (js ''10'')]
   \<and> parseExpr (n + 30) exampleEnv
         [Num (js ''1''), SPACE, Word (js ''NOT''), SPACE, Word (js ''BETWEEN''), SPACE,
          Num (js ''1''), SPACE, Word (js ''AND''), SPACE, Num (js ''10'')] (Idx 0) 0
     = Return (Idx 11, Between (Value (VNumber (js ''1''))) True (Value (VNumber (js ''1''))) (Value (VNumber (js ''10''))))
   \<and> tokenize (js ''CHECK (x BETWEEN 1 AND 10)'')
     = Inr [Word (js ''CHECK''), SPACE, LPAREN, Word (js ''x''), SPACE,
           Word (js ''BETWEEN''), SPACE, Num (js ''1''), SPACE, Word (js ''AND''), SPACE,
           Num (js ''10''), RPAREN]
   \<and> parseOptionalColumnOption (n + 30) exampleEnv
         [Word (js ''CHECK''), SPACE, LPAREN, Word (js ''x''), SPACE,
          Word (js ''BETWEEN''), SPACE, Num (js ''1''), SPACE, Word (js ''AND''), SPACE,
          Num (js ''10''), RPAREN] (Idx 0)
     = Throw (ParseError (js ''Expected: an expression, found: BETWEEN''))"
proof (intro conjI)
  show "tokenize (js ''x BETWEEN 1 AND 10'')
     = Inr [Word (js ''x''), SPACE, Word (js ''BETWEEN''), SPACE, Num (js ''1''), SPACE,
           Word (js ''AND''), SPACE, Num (js ''10'')]"
    by (simp add: tokenize_eval)
  show "parseExpr (n + 30) exampleEnv
         [Word (js ''x''), SPACE, Word (js ''BETWEEN''), SPACE, Num (js ''1''), SPACE,
          Word (js ''AND''), SPACE, Num (js ''10'')] (Idx 0) 0
     = Throw (ParseError (js ''Expected: an expression, found: BETWEEN''))"
    by (simp add: parser_eval cong: prod.case_cong_weak bind_cong_weak)
  show "tokenize (js ''x NOT BETWEEN 1 AND 10'')
     = Inr [Word (js ''x''), SPACE, Word (js ''NOT''), SPACE, Word (js ''BETWEEN''), SPACE,
           Num (js ''1''), SPACE, Word (js ''AND''), SPACE, Num (js ''10'')]"
    by (simp add: tokenize_eval)
  show "parseExpr (n + 30) exampleEnv
         [Word (js ''x''), SPACE, Word (js ''NOT''), SPACE, Word (js ''BETWEEN''), SPACE,
          Num (js ''1''), SPACE, Word (js ''AND''), SPACE, Num (js ''10'')] (Idx 0) 0
     = Throw (ParseError (js ''Expected: an expression, found: NOT''))"
    by (simp add: parser_eval cong: prod.case_cong_weak bind_cong_weak)
  show "tokenize (js ''1 BETWEEN 1 AND 10'')
     = Inr [Num (js ''1''), SPACE, Word (js ''BETWEEN''), SPACE, Num (js ''1''), SPACE,
           Word (js ''AND''), SPACE, Num (js ''10'')]"
    by (simp add: tokenize_eval)
  show "parseExpr (n + 30) exampleEnv
         [Num (js ''1''), SPACE, Word (js ''BETWEEN''), SPACE, Num (js ''1''), SPACE,
          Word (js ''AND''), SPACE, Num (js ''10'')] (Idx 0) 0
     = Throw (ParseError (js ''Expected: IN or BETWEEN after NOT, found: 1''))"
    by (simp add: parser_eval cong: prod.case_cong_weak bind_cong_weak)
  show "tokenize (js ''1 NOT BETWEEN 1 AND 10'')
     = Inr [Num (js ''1''), SPACE, Word (js ''NOT''), SPACE, Word (js ''BETWEEN''), SPACE,
           Num (js ''1''), SPACE, Word (js ''AND''), SPACE, Num (js ''10'')]"
    by (simp add: tokenize_eval)
  show "parseExpr (n + 30) exampleEnv
         [Num (js ''1''), SPACE, Word (js ''NOT''), SPACE, Word (js ''BETWEEN''), SPACE,
          Num (js ''1''), SPACE, Word (js ''AND''), SPACE, Num (js ''10'')] (Idx 0) 0
     = Return (Idx 11, Between (Value (VNumber (js ''1''))) True (Value (VNumber (js ''1''))) (Value (VNumber (js ''10''))))"
    by (simp add: parser_eval cong: prod.case_cong_weak bind_cong_weak)
  show "tokenize (js ''CHECK (x BETWEEN 1 AND 10)'')
     = Inr [Word (js ''CHECK''), SPACE, LPAREN, Word (js ''x''), SPACE,
           Word (js ''BETWEEN''), SPACE, Num (js ''1''), SPACE, Word (js ''AND''), SPACE,
           Num (js ''10''), RPAREN]"
    by (simp add: tokenize_eval)
  show "parseOptionalColumnOption (n + 30) exampleEnv
         [Word (js ''CHECK''), SPACE, LPAREN, Word (js ''x''), SPACE,
          Word (js ''BETWEEN''), SPACE, Num (js ''1''), SPACE, Word (js ''AND''), SPACE,
          Num (js ''10''), RPAREN] (Idx 0)
     = Throw (ParseError (js ''Expected: an expression, found: BETWEEN''))"
    by (simp add: parser_eval cong: prod.case_cong_weak bind_cong_weak)
qed

end
